theory Spec2Isabelle
  imports Main "HOL-Library.List_Lexorder" "HOL-Library.Char_ord"
begin

section \<open>The encryption migration controller\<close>

text \<open>
  A shallow embedding of the migration controller (package \<open>controllers\<close>): \<open>sync\<close>,
  \<open>migrateKeysIfNeededAndRevisionStable\<close>, \<open>setResourceMigrated\<close>, \<open>groupToHumanReadable\<close>
  and \<open>grsToHumanReadable\<close>. The controller's collaborators (deployer, migrator, secret
  client, operator client, clock, JSON codec) live in other packages; they are the fields of
  the record \<open>env\<close> below, and every function of the controller takes that record.
\<close>

subsection \<open>Data\<close>

text \<open>\<open>schema.GroupResource\<close>: a comparable struct of two strings.\<close>

record GroupResource =
  Group :: string
  Resource :: string

text \<open>
  \<open>GroupResource.String()\<close> of k8s.io/apimachinery, which the driver sorts by: the bare
  resource when the group is empty, \<open>resource.group\<close> otherwise.
\<close>

definition GroupResource_String :: "GroupResource \<Rightarrow> string" where
  "GroupResource_String gr =
     (if length (Group gr) = 0 then Resource gr else Resource gr @ ''.'' @ Group gr)"

text \<open>
  Go errors. An error made by a collaborator is identified by its message; a conflict is an
  API status error whose reason is Conflict (what \<open>retry.RetryOnConflict\<close> asks for). The two
  \<open>fmt.Errorf\<close> calls of the controller keep their arguments, and \<open>Aggregate\<close> is the value
  \<open>errors.NewAggregate\<close> builds. \<open>Panic\<close> stands for a run-time panic, where the model has
  to return something. A nil error is \<open>None\<close> of type \<open>error option\<close>.
\<close>

datatype error =
    External string
  | Conflict string
  | FailedToGetKeySecret string string error
  | FailedToMarshal string "GroupResource list" string string
  | Aggregate "error list"
  | Panic string

definition IsConflict :: "error \<Rightarrow> bool" where
  "IsConflict e = (case e of Conflict _ \<Rightarrow> True | _ \<Rightarrow> False)"

text \<open>
  \<open>errors.NewAggregate\<close> of k8s.io/apimachinery: nil for an empty list, nil entries are
  dropped, and nil again when nothing is left.
\<close>

definition NewAggregate :: "error option list \<Rightarrow> error option" where
  "NewAggregate errlist =
     (if length errlist = 0 then None
      else (let errs = concat (map (\<lambda>e. case e of None \<Rightarrow> [] | Some x \<Rightarrow> [x]) errlist)
            in if length errs = 0 then None else Some (Aggregate errs)))"

text \<open>
  \<open>corev1.Secret\<close>, with the fields the controller touches. \<open>Annotations\<close> is a Go map that
  may be nil: \<open>None\<close> is the nil map, which reads as empty and must be replaced before a
  write.
\<close>

record Secret =
  Namespace :: string
  Name :: string
  Annotations :: "(string \<rightharpoonup> string) option"

definition EncryptionSecretMigratedTimestamp :: string where
  "EncryptionSecretMigratedTimestamp =
     ''encryption.apiserver.operator.openshift.io/migrated-timestamp''"

definition EncryptionSecretMigratedResources :: string where
  "EncryptionSecretMigratedResources =
     ''encryption.apiserver.operator.openshift.io/migrated-resources''"

text \<open>Reading a Go map that may be nil: \<open>v, found := m[k]\<close>.\<close>

definition lookupAnnotation :: "Secret \<Rightarrow> string \<Rightarrow> string option" where
  "lookupAnnotation s k = (case Annotations s of None \<Rightarrow> None | Some m \<Rightarrow> m k)"

datatype ConditionStatus = ConditionTrue | ConditionFalse | ConditionUnknown

record OperatorCondition =
  Type :: string
  Status :: ConditionStatus
  Reason :: string
  Message :: string

text \<open>
  \<open>time.Time\<close> and \<open>time.Duration\<close> in nanoseconds. \<open>time.Since\<close> saturates at about 292
  years, far above the five minutes it is compared with, so the plain difference decides the
  comparison the same way.
\<close>

type_synonym Time = int
type_synonym Duration = int

definition Minute :: Duration where
  "Minute = 60 * 1000000000"

definition migrationRetryDuration :: Duration where
  "migrationRetryDuration = Minute * 5"

text \<open>
  \<open>state.GroupResourceState\<close> (the spec's GRActualKeys). The key state type \<open>'k\<close> is declared
  in another package; the driver reads it only through \<open>HasWriteKey\<close>, \<open>KeyName\<close>,
  \<open>MigratedFor\<close> and \<open>FromKeyState\<close> of the environment.
\<close>

record 'k GroupResourceState =
  WriteKey :: 'k
  ReadKeys :: "'k list"

text \<open>
  \<open>EncryptionConfiguration\<close>: only its \<open>Resources\<close> field is read, and only to be compared
  with \<open>reflect.DeepEqual\<close>; \<open>'r\<close> is the type of that field, with HOL equality standing
  for deep equality.
\<close>

record 'r EncryptionConfiguration =
  Resources :: 'r

text \<open>
  The calls the controller makes on its collaborators, logged in the order they are made.
\<close>

datatype call =
    CallEnsureMigration GroupResource string
  | CallPruneMigration GroupResource
  | CallAddAfter string Duration
  | CallGetSecret string string
  | CallApplySecret Secret
  | CallUpdateStatus "OperatorCondition list"
  | LogWarning string

text \<open>
  The world of one tick: \<open>ext\<close> is the state of everything outside the controller (cluster,
  migrator, clock), of a type \<open>'x\<close> the controller knows nothing about; \<open>calls\<close> is the log.
\<close>

record 'x world =
  ext :: 'x
  calls :: "call list"

text \<open>
  The collaborators. A Go map \<open>map[GroupResource]GroupResourceState\<close> is an association
  list with distinct keys, in the order \<open>range\<close> happens to visit it in this tick. Reads are
  functions of the outside state; \<open>EnsureMigration\<close>, \<open>PruneMigration\<close>, \<open>ApplySecret\<close> and
  \<open>UpdateStatus\<close> also change it. A Go result \<open>(v, err)\<close> is a pair with an \<open>error option\<close>.
\<close>

record ('x, 'k, 'r) env =
  component :: string
  QueueKey :: string
  shouldRunEncryptionController :: "'x \<Rightarrow> bool \<times> error option"
  EncryptedGRs :: "'x \<Rightarrow> GroupResource list"
  GetEncryptionConfigAndState ::
    "'x \<Rightarrow> GroupResource list \<Rightarrow>
      'r EncryptionConfiguration option \<times> (GroupResource \<times> 'k GroupResourceState) list
        \<times> string \<times> error option"
  ListKeySecrets :: "'x \<Rightarrow> Secret list \<times> error option"
  ToEncryptionState ::
    "'r EncryptionConfiguration \<Rightarrow> Secret list \<Rightarrow> (GroupResource \<times> 'k GroupResourceState) list"
  FromEncryptionState ::
    "(GroupResource \<times> 'k GroupResourceState) list \<Rightarrow> 'r EncryptionConfiguration"
  HasWriteKey :: "'k GroupResourceState \<Rightarrow> bool"
  KeyName :: "'k \<Rightarrow> string"
  MigratedFor :: "GroupResource list \<Rightarrow> 'k \<Rightarrow> bool"
  FromKeyState :: "string \<Rightarrow> 'k \<Rightarrow> Secret \<times> error option"
  EnsureMigration ::
    "'x \<Rightarrow> GroupResource \<Rightarrow> string \<Rightarrow> (bool \<times> error option \<times> Time \<times> error option) \<times> 'x"
  PruneMigration :: "'x \<Rightarrow> GroupResource \<Rightarrow> error option \<times> 'x"
  GetSecret :: "'x \<Rightarrow> string \<Rightarrow> string \<Rightarrow> Secret \<times> error option"
  ApplySecret :: "'x \<Rightarrow> Secret \<Rightarrow> error option \<times> 'x"
  UpdateStatus :: "'x \<Rightarrow> OperatorCondition list \<Rightarrow> error option \<times> 'x"
  Now :: "'x \<Rightarrow> Time"
  ErrorString :: "error \<Rightarrow> string"
  FormatRFC3339 :: "Time \<Rightarrow> string"
  jsonUnmarshal :: "string \<Rightarrow> GroupResource list \<times> error option"
  jsonMarshal :: "GroupResource list \<Rightarrow> string \<times> error option"

subsection \<open>setResourceMigrated\<close>

text \<open>
  The first lines of \<open>setResourceMigrated\<close>: the list \<open>migratedGRs.Resources\<close> after the
  annotation has been read. A missing annotation and one that does not parse both give the
  empty list.
\<close>

definition parseMigratedGRs :: "('x, 'k, 'r) env \<Rightarrow> Secret \<Rightarrow> GroupResource list" where
  "parseMigratedGRs env s =
     (case lookupAnnotation s EncryptionSecretMigratedResources of
        None \<Rightarrow> []
      | Some existing \<Rightarrow>
          (case jsonUnmarshal env existing of
             (_, Some err) \<Rightarrow> []
           | (resources, None) \<Rightarrow> resources))"

text \<open>The loop that looks for \<open>gr\<close> among the parsed resources.\<close>

fun alreadyMigratedIn :: "GroupResource \<Rightarrow> GroupResource list \<Rightarrow> bool" where
  "alreadyMigratedIn gr [] = False"
| "alreadyMigratedIn gr (existingGR # rest) =
     (if existingGR = gr then True else alreadyMigratedIn gr rest)"

text \<open>Writing a Go map through \<open>s.Annotations[k] = v\<close>, after the nil map was replaced.\<close>

definition setAnnotation :: "Secret \<Rightarrow> string \<Rightarrow> string \<Rightarrow> Secret" where
  "setAnnotation s k v =
     s\<lparr>Annotations := Some ((case Annotations s of None \<Rightarrow> Map.empty | Some m \<Rightarrow> m)(k \<mapsto> v))\<rparr>"

text \<open>
  \<open>setResourceMigrated\<close> mutates the secret it is given, so the model returns the secret
  next to the Go results \<open>(changed, err)\<close>. \<open>x\<close> is the outside state the clock is read
  from.
\<close>

definition setResourceMigrated ::
  "('x, 'k, 'r) env \<Rightarrow> 'x \<Rightarrow> GroupResource \<Rightarrow> Secret \<Rightarrow> (bool \<times> error option) \<times> Secret" where
  "setResourceMigrated env x gr s =
     (let migratedGRs = parseMigratedGRs env s;
          alreadyMigrated = alreadyMigratedIn gr migratedGRs
      in if lookupAnnotation s EncryptionSecretMigratedTimestamp \<noteq> None \<and> alreadyMigrated
         then ((False, None), s)
         else
           (let s1 = setAnnotation s EncryptionSecretMigratedTimestamp
                       (FormatRFC3339 env (Now env x))
            in if \<not> alreadyMigrated
               then
                 (case jsonMarshal env (migratedGRs @ [gr]) of
                    (_, Some err) \<Rightarrow>
                      ((False, Some (FailedToMarshal EncryptionSecretMigratedResources
                                       (migratedGRs @ [gr]) (Namespace s1) (Name s1))), s1)
                  | (bs, None) \<Rightarrow>
                      ((True, None), setAnnotation s1 EncryptionSecretMigratedResources bs))
               else ((True, None), s1)))"

subsection \<open>Rendering\<close>

definition groupToHumanReadable :: "GroupResource \<Rightarrow> string" where
  "groupToHumanReadable gr =
     (let group = Group gr in if length group = 0 then ''core'' else group)"

text \<open>\<open>fmt.Sprintf("%s/%s", ...)\<close> for each element, in order.\<close>

fun grsToHumanReadable :: "GroupResource list \<Rightarrow> string list" where
  "grsToHumanReadable [] = []"
| "grsToHumanReadable (gr # grs) =
     (groupToHumanReadable gr @ ''/'' @ Resource gr) # grsToHumanReadable grs"

fun joinStrings :: "string \<Rightarrow> string list \<Rightarrow> string" where
  "joinStrings sep [] = []"
| "joinStrings sep [x] = x"
| "joinStrings sep (x # y # ys) = x @ sep @ joinStrings sep (y # ys)"

text \<open>\<open>fmt\<close>'s \<open>%v\<close> of a \<open>[]string\<close>: the elements between brackets, one space apart.\<close>

definition formatStrings :: "string list \<Rightarrow> string" where
  "formatStrings xs = ''['' @ joinStrings '' '' xs @ '']''"

subsection \<open>Calls on the collaborators\<close>

definition logCall :: "call \<Rightarrow> 'x world \<Rightarrow> 'x world" where
  "logCall c w = w\<lparr>calls := calls w @ [c]\<rparr>"

definition callEnsureMigration ::
  "('x, 'k, 'r) env \<Rightarrow> GroupResource \<Rightarrow> string \<Rightarrow> 'x world \<Rightarrow>
     (bool \<times> error option \<times> Time \<times> error option) \<times> 'x world" where
  "callEnsureMigration env gr name w =
     (case EnsureMigration env (ext w) gr name of
        (r, x') \<Rightarrow> (r, \<lparr>ext = x', calls = calls w @ [CallEnsureMigration gr name]\<rparr>))"

definition callPruneMigration ::
  "('x, 'k, 'r) env \<Rightarrow> GroupResource \<Rightarrow> 'x world \<Rightarrow> error option \<times> 'x world" where
  "callPruneMigration env gr w =
     (case PruneMigration env (ext w) gr of
        (r, x') \<Rightarrow> (r, \<lparr>ext = x', calls = calls w @ [CallPruneMigration gr]\<rparr>))"

definition callApplySecret ::
  "('x, 'k, 'r) env \<Rightarrow> Secret \<Rightarrow> 'x world \<Rightarrow> error option \<times> 'x world" where
  "callApplySecret env s w =
     (case ApplySecret env (ext w) s of
        (r, x') \<Rightarrow> (r, \<lparr>ext = x', calls = calls w @ [CallApplySecret s]\<rparr>))"

definition callUpdateStatus ::
  "('x, 'k, 'r) env \<Rightarrow> OperatorCondition list \<Rightarrow> 'x world \<Rightarrow> error option \<times> 'x world" where
  "callUpdateStatus env conditions w =
     (case UpdateStatus env (ext w) conditions of
        (r, x') \<Rightarrow> (r, \<lparr>ext = x', calls = calls w @ [CallUpdateStatus conditions]\<rparr>))"

text \<open>\<open>syncContext.Queue().AddAfter(syncContext.QueueKey(), 2*time.Minute)\<close>.\<close>

definition requeue :: "('x, 'k, 'r) env \<Rightarrow> 'x world \<Rightarrow> 'x world" where
  "requeue env w = logCall (CallAddAfter (QueueKey env) (2 * Minute)) w"

subsection \<open>migrateKeysIfNeededAndRevisionStable\<close>

text \<open>
  The loop that stops all running migrations when the configuration is not stable: an error
  of \<open>PruneMigration\<close> is logged with \<open>klog.Warningf\<close> and otherwise dropped.
\<close>

fun stopRunningMigrations ::
  "('x, 'k, 'r) env \<Rightarrow> GroupResource list \<Rightarrow> 'x world \<Rightarrow> 'x world" where
  "stopRunningMigrations env [] w = w"
| "stopRunningMigrations env (gr # grs) w =
     (case callPruneMigration env gr w of
        (Some err, w1) \<Rightarrow>
          stopRunningMigrations env grs
            (logCall (LogWarning (''failed to interrupt migration for resource ''
                                   @ GroupResource_String gr)) w1)
      | (None, w1) \<Rightarrow> stopRunningMigrations env grs w1)"

text \<open>
  The idempotent migration start with its retry: \<open>EnsureMigration\<close>, and when the last
  migration failed long enough ago, \<open>PruneMigration\<close> and \<open>EnsureMigration\<close> again. \<open>Inl err\<close> is
  the \<open>continue\<close> after a failed prune; \<open>Inr\<close> carries \<open>(finished, result, when, err)\<close> as they
  stand after the \<open>if\<close>.
\<close>

definition ensureMigrationWithRetry ::
  "('x, 'k, 'r) env \<Rightarrow> GroupResource \<Rightarrow> string \<Rightarrow> 'x world \<Rightarrow>
     (error + (bool \<times> error option \<times> Time \<times> error option)) \<times> 'x world" where
  "ensureMigrationWithRetry env gr name w =
     (case callEnsureMigration env gr name w of
        ((finished, result, when, err), w1) \<Rightarrow>
          if err = None \<and> finished \<and> result \<noteq> None
             \<and> Now env (ext w1) - when > migrationRetryDuration
          then
            (case callPruneMigration env gr w1 of
               (Some err, w2) \<Rightarrow> (Inl err, w2)
             | (None, w2) \<Rightarrow>
                 (case callEnsureMigration env gr name w2 of (r, w3) \<Rightarrow> (Inr r, w3)))
          else (Inr (finished, result, when, err), w1))"

text \<open>
  The function handed to \<open>retry.RetryOnConflict\<close>: get the key secret, compute the new
  annotations, and apply the secret when they changed.
\<close>

definition updateSecretAnnotations ::
  "('x, 'k, 'r) env \<Rightarrow> GroupResource \<Rightarrow> Secret \<Rightarrow> 'x world \<Rightarrow> error option \<times> 'x world" where
  "updateSecretAnnotations env gr oldWriteKey w =
     (let w1 = logCall (CallGetSecret (Namespace oldWriteKey) (Name oldWriteKey)) w
      in case GetSecret env (ext w) (Namespace oldWriteKey) (Name oldWriteKey) of
           (_, Some err) \<Rightarrow>
             (Some (FailedToGetKeySecret (Namespace oldWriteKey) (Name oldWriteKey) err), w1)
         | (s, None) \<Rightarrow>
             (case setResourceMigrated env (ext w) gr s of
                ((_, Some err), _) \<Rightarrow> (Some err, w1)
              | ((changed, None), s') \<Rightarrow>
                  if \<not> changed then (None, w1) else callApplySecret env s' w1))"

text \<open>
  \<open>retry.RetryOnConflict\<close> of k8s.io/client-go: run \<open>fn\<close> at most \<open>steps\<close> times, again only
  after a conflict; the last conflict is the result when the steps run out.
  \<open>retry.DefaultBackoff\<close> has four steps.
\<close>

fun RetryOnConflict ::
  "nat \<Rightarrow> ('x world \<Rightarrow> error option \<times> 'x world) \<Rightarrow> 'x world \<Rightarrow> error option \<times> 'x world" where
  "RetryOnConflict 0 fn w = (None, w)"
| "RetryOnConflict (Suc steps) fn w =
     (case fn w of
        (None, w1) \<Rightarrow> (None, w1)
      | (Some err, w1) \<Rightarrow>
          if IsConflict err
          then (if steps = 0 then (Some err, w1) else RetryOnConflict steps fn w1)
          else (Some err, w1))"

definition DefaultBackoff_Steps :: nat where
  "DefaultBackoff_Steps = 4"

text \<open>
  The body of the loop over the sorted resources, with \<open>errs\<close> and \<open>migratingResources\<close> as
  the loop carries them. A resource that is no key of \<open>currentState\<close> reads the zero value,
  which has no write key; the loop only visits keys.
\<close>

definition migrateGR ::
  "('x, 'k, 'r) env \<Rightarrow> (GroupResource \<times> 'k GroupResourceState) list \<Rightarrow> GroupResource \<Rightarrow>
     error option list \<times> GroupResource list \<times> 'x world \<Rightarrow>
     error option list \<times> GroupResource list \<times> 'x world" where
  "migrateGR env currentState gr st =
     (case st of (errs, migratingResources, w) \<Rightarrow>
      (case map_of currentState gr of
         None \<Rightarrow> (errs, migratingResources, w)
       | Some grActualKeys \<Rightarrow>
           if \<not> HasWriteKey env grActualKeys then (errs, migratingResources, w)
           else if MigratedFor env [gr] (WriteKey grActualKeys)
           then (errs, migratingResources, w)
           else
             (case ensureMigrationWithRetry env gr (KeyName env (WriteKey grActualKeys)) w of
                (Inl err, w1) \<Rightarrow> (errs @ [Some err], migratingResources, w1)
              | (Inr (finished, result, when, err), w1) \<Rightarrow>
                  if err \<noteq> None then (errs @ [err], migratingResources, w1)
                  else if finished \<and> result \<noteq> None
                  then (errs @ [result], migratingResources, w1)
                  else if \<not> finished then (errs, migratingResources @ [gr], w1)
                  else
                    (case FromKeyState env (component env) (WriteKey grActualKeys) of
                       (_, Some err) \<Rightarrow> (errs @ [result], migratingResources, w1)
                     | (oldWriteKey, None) \<Rightarrow>
                         (case RetryOnConflict DefaultBackoff_Steps
                                 (updateSecretAnnotations env gr oldWriteKey) w1 of
                            (Some err, w2) \<Rightarrow> (errs @ [Some err], migratingResources, w2)
                          | (None, w2) \<Rightarrow> (errs, migratingResources, w2))))))"

fun migrateGRs ::
  "('x, 'k, 'r) env \<Rightarrow> (GroupResource \<times> 'k GroupResourceState) list \<Rightarrow> GroupResource list \<Rightarrow>
     error option list \<times> GroupResource list \<times> 'x world \<Rightarrow>
     error option list \<times> GroupResource list \<times> 'x world" where
  "migrateGRs env currentState [] st = st"
| "migrateGRs env currentState (gr # grs) st =
     migrateGRs env currentState grs (migrateGR env currentState gr st)"

text \<open>
  \<open>sort.Slice\<close> by \<open>String()\<close> over the keys in the order \<open>range\<close> gave them. The keys of a Go
  map come in any order and \<open>sort.Slice\<close> is not stable; a stable sort of an arbitrary order
  of the keys reaches the same results.
\<close>

definition sortGRs :: "GroupResource list \<Rightarrow> GroupResource list" where
  "sortGRs grs = sort_key GroupResource_String grs"

definition migrateKeysIfNeededAndRevisionStable ::
  "('x, 'k, 'r) env \<Rightarrow> GroupResource list \<Rightarrow> 'x world \<Rightarrow>
     (GroupResource list \<times> error option) \<times> 'x world" where
  "migrateKeysIfNeededAndRevisionStable env encryptedGRs w =
     (case GetEncryptionConfigAndState env (ext w) encryptedGRs of
        (currentEncryptionConfig, desiredEncryptionState, isTransitionalReason, err) \<Rightarrow>
          if err \<noteq> None then (([], err), w)
          else
            (case currentEncryptionConfig of
               None \<Rightarrow> (([], None), requeue env w)
             | Some cfg \<Rightarrow>
                 if length isTransitionalReason > 0 then (([], None), requeue env w)
                 else
                   (case ListKeySecrets env (ext w) of
                      (encryptionSecrets, err) \<Rightarrow>
                        if err \<noteq> None then (([], err), w)
                        else
                          (let currentState = ToEncryptionState env cfg encryptionSecrets;
                               desiredEncryptedConfig =
                                 FromEncryptionState env desiredEncryptionState
                           in if Resources cfg \<noteq> Resources desiredEncryptedConfig
                              then
                                (([], None),
                                 requeue env
                                   (stopRunningMigrations env (map fst currentState) w))
                              else
                                (case migrateGRs env currentState
                                        (sortGRs (map fst currentState)) ([], [], w) of
                                   (errs, migratingResources, w1) \<Rightarrow>
                                     ((migratingResources, NewAggregate errs), w1))))))"

subsection \<open>sync\<close>

text \<open>
  The deferred function of \<open>sync\<close>: nothing when both condition pointers are nil; otherwise
  both conditions are written, and an error of that write replaces the result of \<open>sync\<close>.
  The two pointers are only ever set to nil together; dereferencing one nil pointer would
  panic.
\<close>

definition deferredUpdateStatus ::
  "('x, 'k, 'r) env \<Rightarrow> OperatorCondition option \<Rightarrow> OperatorCondition option \<Rightarrow>
     error option \<Rightarrow> 'x world \<Rightarrow> error option \<times> 'x world" where
  "deferredUpdateStatus env degradedCondition progressingCondition err w =
     (case (degradedCondition, progressingCondition) of
        (None, None) \<Rightarrow> (err, w)
      | (Some d, Some p) \<Rightarrow>
          (case callUpdateStatus env [d, p] w of
             (Some updateError, w1) \<Rightarrow> (Some updateError, w1)
           | (None, w1) \<Rightarrow> (err, w1))
      | _ \<Rightarrow> (Some (Panic ''nil pointer dereference''), w))"

definition initialDegradedCondition :: OperatorCondition where
  "initialDegradedCondition =
     \<lparr>Type = ''EncryptionMigrationControllerDegraded'', Status = ConditionFalse,
      Reason = [], Message = []\<rparr>"

definition initialProgressingCondition :: OperatorCondition where
  "initialProgressingCondition =
     \<lparr>Type = ''EncryptionMigrationControllerProgressing'', Status = ConditionFalse,
      Reason = [], Message = []\<rparr>"

definition sync :: "('x, 'k, 'r) env \<Rightarrow> 'x world \<Rightarrow> error option \<times> 'x world" where
  "sync env w =
     (let degradedCondition = initialDegradedCondition;
          progressingCondition = initialProgressingCondition
      in case shouldRunEncryptionController env (ext w) of
           (ready, err) \<Rightarrow>
             if err \<noteq> None \<or> \<not> ready
             then
               (if err \<noteq> None then deferredUpdateStatus env None None err w
                else deferredUpdateStatus env (Some degradedCondition)
                       (Some progressingCondition) err w)
             else
               (case migrateKeysIfNeededAndRevisionStable env (EncryptedGRs env (ext w)) w of
                  ((migratingResources, migrationError), w1) \<Rightarrow>
                    (let degraded1 =
                           (case migrationError of
                              None \<Rightarrow> degradedCondition
                            | Some e \<Rightarrow>
                                degradedCondition\<lparr>Status := ConditionTrue, Reason := ''Error'',
                                  Message := ErrorString env e\<rparr>);
                         progressing1 =
                           (if length migratingResources > 0
                            then progressingCondition\<lparr>Status := ConditionTrue,
                                   Reason := ''Migrating'',
                                   Message := ''migrating resources to a new write key: ''
                                     @ formatStrings (grsToHumanReadable migratingResources)\<rparr>
                            else progressingCondition)
                     in deferredUpdateStatus env (Some degraded1) (Some progressing1)
                          migrationError w1)))"

subsection \<open>Reading the log\<close>

text \<open>The calls on the migrator, and the calls on the secret client.\<close>

definition isMigratorCall :: "call \<Rightarrow> bool" where
  "isMigratorCall c =
     (case c of CallEnsureMigration gr name \<Rightarrow> True | CallPruneMigration gr \<Rightarrow> True
      | _ \<Rightarrow> False)"

definition isSecretCall :: "call \<Rightarrow> bool" where
  "isSecretCall c =
     (case c of CallGetSecret ns name \<Rightarrow> True | CallApplySecret s \<Rightarrow> True | _ \<Rightarrow> False)"


subsection \<open>A concrete environment\<close>

text \<open>
  The environment of the boundary scenarios: a converged fleet whose deployed configuration
  is the desired one, two resources with the same write key, a migrator that reports every
  migration as still running, and collaborators that never fail. The outside state is the
  clock. The scenarios below change one collaborator at a time.
\<close>

definition secretsGR :: GroupResource where
  "secretsGR = \<lparr>Group = [], Resource = ''secrets''\<rparr>"

definition configmapsGR :: GroupResource where
  "configmapsGR = \<lparr>Group = [], Resource = ''configmaps''\<rparr>"

definition deploymentsGR :: GroupResource where
  "deploymentsGR = \<lparr>Group = ''apps'', Resource = ''deployments''\<rparr>"

text \<open>
  A stand-in for \<open>encoding/json\<close> on the resource list: each resource as \<open>group/resource;\<close>.
\<close>

definition scenarioMarshal :: "GroupResource list \<Rightarrow> string \<times> error option" where
  "scenarioMarshal grs = (concat (map (\<lambda>gr. Group gr @ ''/'' @ Resource gr @ '';'') grs), None)"

fun scenarioParse :: "string \<Rightarrow> string \<Rightarrow> string option \<Rightarrow> GroupResource list option" where
  "scenarioParse [] cur grp = (if cur = [] \<and> grp = None then Some [] else None)"
| "scenarioParse (c # cs) cur grp =
     (if c = CHR ''/''
      then (case grp of None \<Rightarrow> scenarioParse cs [] (Some cur) | Some g \<Rightarrow> None)
      else if c = CHR '';''
      then (case grp of
              None \<Rightarrow> None
            | Some g \<Rightarrow>
                (case scenarioParse cs [] None of
                   None \<Rightarrow> None
                 | Some grs \<Rightarrow> Some (\<lparr>Group = g, Resource = cur\<rparr> # grs)))
      else scenarioParse cs (cur @ [c]) grp)"

definition scenarioUnmarshal :: "string \<Rightarrow> GroupResource list \<times> error option" where
  "scenarioUnmarshal bs =
     (case scenarioParse bs [] None of
        None \<Rightarrow> ([], Some (External ''invalid character''))
      | Some grs \<Rightarrow> (grs, None))"

definition scenarioState :: "(GroupResource \<times> string GroupResourceState) list" where
  "scenarioState =
     [(deploymentsGR, \<lparr>WriteKey = ''encryption-key-1'', ReadKeys = []\<rparr>),
      (configmapsGR, \<lparr>WriteKey = ''encryption-key-1'', ReadKeys = []\<rparr>)]"

definition scenario :: "(Time, string, nat) env" where
  "scenario =
     \<lparr>component = ''kube-apiserver'',
      QueueKey = ''key'',
      shouldRunEncryptionController = (\<lambda>x. (True, None)),
      EncryptedGRs = (\<lambda>x. [configmapsGR, deploymentsGR]),
      GetEncryptionConfigAndState =
        (\<lambda>x grs. (Some \<lparr>Resources = 1\<rparr>, scenarioState, [], None)),
      ListKeySecrets = (\<lambda>x. ([], None)),
      ToEncryptionState = (\<lambda>cfg secrets. scenarioState),
      FromEncryptionState = (\<lambda>desired. \<lparr>Resources = 1\<rparr>),
      HasWriteKey = (\<lambda>k. length (WriteKey k) > 0),
      KeyName = (\<lambda>k. k),
      MigratedFor = (\<lambda>grs k. False),
      FromKeyState =
        (\<lambda>c k. (\<lparr>Namespace = ''openshift-config-managed'', Name = k, Annotations = None\<rparr>,
                 None)),
      EnsureMigration = (\<lambda>x gr name. ((False, None, 0, None), x)),
      PruneMigration = (\<lambda>x gr. (None, x)),
      GetSecret = (\<lambda>x ns n. (\<lparr>Namespace = ns, Name = n, Annotations = None\<rparr>, None)),
      ApplySecret = (\<lambda>x s. (None, x)),
      UpdateStatus = (\<lambda>x conditions. (None, x)),
      Now = (\<lambda>x. x),
      ErrorString = (\<lambda>e. ''error''),
      FormatRFC3339 = (\<lambda>t. if t = 0 then ''1970-01-01T00:00:00Z'' else ''later''),
      jsonUnmarshal = scenarioUnmarshal,
      jsonMarshal = scenarioMarshal\<rparr>"

text \<open>Fleet mid-rollout: the state deriver reports a transitional reason.\<close>

definition transitionalScenario :: "(Time, string, nat) env" where
  "transitionalScenario =
     scenario\<lparr>GetEncryptionConfigAndState :=
       (\<lambda>x grs. (Some \<lparr>Resources = 1\<rparr>, scenarioState, ''APIServerRevisionNotConverged'',
                  None))\<rparr>"

text \<open>
  Config divergence: the desired configuration is not the deployed one, and the migrator
  fails to prune \<open>deployments\<close>.
\<close>

definition divergedScenario :: "(Time, string, nat) env" where
  "divergedScenario =
     scenario\<lparr>FromEncryptionState := (\<lambda>desired. \<lparr>Resources = 2\<rparr>),
              PruneMigration :=
                (\<lambda>x gr. (if gr = deploymentsGR then Some (External ''prune failed'') else None,
                          x))\<rparr>"

text \<open>The precondition check reports false, and the precondition check fails.\<close>

definition disabledScenario :: "(Time, string, nat) env" where
  "disabledScenario = scenario\<lparr>shouldRunEncryptionController := (\<lambda>x. (False, None))\<rparr>"

definition preconditionErrorScenario :: "(Time, string, nat) env" where
  "preconditionErrorScenario =
     scenario\<lparr>shouldRunEncryptionController :=
       (\<lambda>x. (False, Some (External ''operator client not synced'')))\<rparr>"

text \<open>
  Failure with cool-down: every migration finished with an error at time 0. In the second
  environment the migrator also fails to prune.
\<close>

definition failedScenario :: "(Time, string, nat) env" where
  "failedScenario =
     scenario\<lparr>EnsureMigration :=
       (\<lambda>x gr name. ((True, Some (External ''migration failed''), 0, None), x))\<rparr>"

definition pruneFailsScenario :: "(Time, string, nat) env" where
  "pruneFailsScenario =
     failedScenario\<lparr>PruneMigration := (\<lambda>x gr. (Some (External ''prune failed''), x))\<rparr>"

text \<open>
  Every migration finished without error; in the second environment \<open>secrets\<close> is the only
  resource and its write key cannot be converted to a secret; in the third the write key
  already claims every resource.
\<close>

definition finishedScenario :: "(Time, string, nat) env" where
  "finishedScenario =
     scenario\<lparr>EnsureMigration := (\<lambda>x gr name. ((True, None, 0, None), x))\<rparr>"

definition conversionFailsScenario :: "(Time, string, nat) env" where
  "conversionFailsScenario =
     finishedScenario\<lparr>ToEncryptionState :=
         (\<lambda>cfg secrets. [(secretsGR, \<lparr>WriteKey = ''encryption-key-1'', ReadKeys = []\<rparr>)]),
       FromKeyState :=
         (\<lambda>c k. (\<lparr>Namespace = [], Name = [], Annotations = None\<rparr>,
                  Some (External ''invalid key'')))\<rparr>"




definition statusFailsTransitionalScenario :: "(Time, string, nat) env" where
  "statusFailsTransitionalScenario =
     transitionalScenario\<lparr>UpdateStatus :=
       (\<lambda>x conditions. (Some (External ''update failed''), x))\<rparr>"


text \<open>
  The two conditions \<open>sync\<close> hands to the status update after the driver has returned
  \<open>migratingResources\<close> and \<open>migrationError\<close>.
\<close>

definition degradedFor :: "('x, 'k, 'r) env \<Rightarrow> error option \<Rightarrow> OperatorCondition" where
  "degradedFor env migrationError =
     (case migrationError of
        None \<Rightarrow> initialDegradedCondition
      | Some e \<Rightarrow>
          initialDegradedCondition\<lparr>Status := ConditionTrue, Reason := ''Error'',
            Message := ErrorString env e\<rparr>)"

definition progressingFor :: "GroupResource list \<Rightarrow> OperatorCondition" where
  "progressingFor migratingResources =
     (if length migratingResources > 0
      then initialProgressingCondition\<lparr>Status := ConditionTrue, Reason := ''Migrating'',
             Message := ''migrating resources to a new write key: ''
               @ formatStrings (grsToHumanReadable migratingResources)\<rparr>
      else initialProgressingCondition)"

text \<open>A key secret without annotations, and the world at the start of a tick.\<close>

definition keySecret :: Secret where
  "keySecret =
     \<lparr>Namespace = ''openshift-config-managed'', Name = ''encryption-key-1'',
      Annotations = None\<rparr>"

text \<open>A key secret that records \<open>secrets\<close> as migrated but carries no timestamp.\<close>

definition migratedKeySecret :: Secret where
  "migratedKeySecret =
     keySecret\<lparr>Annotations :=
       Some (Map.empty(EncryptionSecretMigratedResources \<mapsto> ''/secrets;''))\<rparr>"

text \<open>The same key secret with the timestamp as well.\<close>

definition stampedKeySecret :: Secret where
  "stampedKeySecret =
     keySecret\<lparr>Annotations :=
       Some (Map.empty(EncryptionSecretMigratedResources \<mapsto> ''/secrets;'',
                       EncryptionSecretMigratedTimestamp \<mapsto> ''1970-01-01T00:00:00Z''))\<rparr>"

definition tickStart :: "Time \<Rightarrow> Time world" where
  "tickStart t = \<lparr>ext = t, calls = []\<rparr>"

section \<open>The annotation update\<close>

lemma alreadyMigratedIn_set: "alreadyMigratedIn gr grs = (gr \<in> set grs)"
  by (induction grs) auto

lemma lookup_setAnnotation:
  "lookupAnnotation (setAnnotation s k v) k' = (if k' = k then Some v else lookupAnnotation s k')"
  by (simp add: lookupAnnotation_def setAnnotation_def split: option.splits)

lemma ts_ne_res: "EncryptionSecretMigratedTimestamp \<noteq> EncryptionSecretMigratedResources"
  by (simp add: EncryptionSecretMigratedTimestamp_def EncryptionSecretMigratedResources_def)

lemma parse_setAnnotation_ts:
  "parseMigratedGRs env (setAnnotation s EncryptionSecretMigratedTimestamp v)
     = parseMigratedGRs env s"
  by (simp add: parseMigratedGRs_def lookup_setAnnotation ts_ne_res[symmetric])

lemma parse_setAnnotation_res:
  "parseMigratedGRs env (setAnnotation s EncryptionSecretMigratedResources bs) =
     (case jsonUnmarshal env bs of (rs, None) \<Rightarrow> rs | (rs, Some e) \<Rightarrow> [])"
  by (simp add: parseMigratedGRs_def lookup_setAnnotation split: prod.splits option.splits)

text \<open>
  C3. \<open>setResourceMigrated\<close> reads the migrated-resources annotation through the JSON codec,
  a missing or unparsable value giving the empty list. It returns unchanged (\<open>false, nil\<close>,
  the secret as it was) exactly when the resource is in that list and the
  migrated-timestamp annotation is present. Otherwise the timestamp becomes the current
  time in RFC3339; when the resource was not in the list, the list with the resource
  appended is serialised and becomes the migrated-resources annotation, with result
  \<open>true, nil\<close>; when it was in the list, the result is \<open>true, nil\<close> and the
  migrated-resources annotation stays. The only other \<open>false\<close> is the error return when
  the serialisation itself fails; when it does not fail, \<open>changed\<close> is false exactly in the
  unchanged case.
\<close>

theorem setResourceMigrated_update:
  "(lookupAnnotation s EncryptionSecretMigratedResources = None \<longrightarrow> parseMigratedGRs env s = [])
   \<and> (\<forall>existing. lookupAnnotation s EncryptionSecretMigratedResources = Some existing \<longrightarrow>
         parseMigratedGRs env s =
           (case jsonUnmarshal env existing of (rs, None) \<Rightarrow> rs | (rs, Some e) \<Rightarrow> []))
   \<and> (setResourceMigrated env x gr s = ((False, None), s) \<longleftrightarrow>
         gr \<in> set (parseMigratedGRs env s)
         \<and> lookupAnnotation s EncryptionSecretMigratedTimestamp \<noteq> None)
   \<and> (fst (setResourceMigrated env x gr s) = (False, None) \<longleftrightarrow>
         gr \<in> set (parseMigratedGRs env s)
         \<and> lookupAnnotation s EncryptionSecretMigratedTimestamp \<noteq> None)
   \<and> (snd (jsonMarshal env (parseMigratedGRs env s @ [gr])) = None \<longrightarrow>
        (fst (fst (setResourceMigrated env x gr s)) = False \<longleftrightarrow>
           gr \<in> set (parseMigratedGRs env s)
           \<and> lookupAnnotation s EncryptionSecretMigratedTimestamp \<noteq> None))
   \<and> (\<not> (gr \<in> set (parseMigratedGRs env s)
          \<and> lookupAnnotation s EncryptionSecretMigratedTimestamp \<noteq> None) \<longrightarrow>
        lookupAnnotation (snd (setResourceMigrated env x gr s)) EncryptionSecretMigratedTimestamp
          = Some (FormatRFC3339 env (Now env x)))
   \<and> (gr \<notin> set (parseMigratedGRs env s) \<longrightarrow>
        (\<forall>bs. jsonMarshal env (parseMigratedGRs env s @ [gr]) = (bs, None) \<longrightarrow>
           fst (setResourceMigrated env x gr s) = (True, None)
           \<and> lookupAnnotation (snd (setResourceMigrated env x gr s))
                EncryptionSecretMigratedResources = Some bs))
   \<and> (gr \<in> set (parseMigratedGRs env s)
        \<and> lookupAnnotation s EncryptionSecretMigratedTimestamp = None \<longrightarrow>
        fst (setResourceMigrated env x gr s) = (True, None)
        \<and> lookupAnnotation (snd (setResourceMigrated env x gr s))
             EncryptionSecretMigratedResources
           = lookupAnnotation s EncryptionSecretMigratedResources)"
  apply (intro conjI)
  subgoal by (simp add: parseMigratedGRs_def)
  subgoal by (auto simp add: parseMigratedGRs_def split: option.splits prod.splits)
  subgoal
    by (auto simp add: setResourceMigrated_def Let_def alreadyMigratedIn_set
        split: prod.splits option.splits)
  subgoal
    by (auto simp add: setResourceMigrated_def Let_def alreadyMigratedIn_set
        split: prod.splits option.splits)
  subgoal
    by (auto simp add: setResourceMigrated_def Let_def alreadyMigratedIn_set
        split: prod.splits option.splits)
  subgoal
    by (auto simp add: setResourceMigrated_def Let_def alreadyMigratedIn_set
        lookup_setAnnotation ts_ne_res ts_ne_res[symmetric] split: prod.splits option.splits)
  subgoal
    by (auto simp add: setResourceMigrated_def Let_def alreadyMigratedIn_set
        lookup_setAnnotation ts_ne_res ts_ne_res[symmetric] split: prod.splits option.splits)
  subgoal
    by (auto simp add: setResourceMigrated_def Let_def alreadyMigratedIn_set
        lookup_setAnnotation ts_ne_res ts_ne_res[symmetric] split: prod.splits option.splits)
  done


theorem setResourceMigrated_update_witness:
  "parseMigratedGRs scenario keySecret = []
   \<and> lookupAnnotation keySecret EncryptionSecretMigratedTimestamp = None
   \<and> jsonMarshal scenario ([] @ [secretsGR]) = (''/secrets;'', None)
   \<and> fst (setResourceMigrated scenario 0 secretsGR keySecret) = (True, None)
   \<and> lookupAnnotation (snd (setResourceMigrated scenario 0 secretsGR keySecret))
        EncryptionSecretMigratedResources = Some ''/secrets;''
   \<and> lookupAnnotation (snd (setResourceMigrated scenario 0 secretsGR keySecret))
        EncryptionSecretMigratedTimestamp = Some ''1970-01-01T00:00:00Z''
   \<and> parseMigratedGRs scenario stampedKeySecret = [secretsGR]
   \<and> lookupAnnotation stampedKeySecret EncryptionSecretMigratedTimestamp
       = Some ''1970-01-01T00:00:00Z''
   \<and> setResourceMigrated scenario 5 secretsGR stampedKeySecret
       = ((False, None), stampedKeySecret)"
proof -
  have h1: "lookupAnnotation keySecret EncryptionSecretMigratedResources = None"
    by (simp add: keySecret_def lookupAnnotation_def)
  have h2: "lookupAnnotation keySecret EncryptionSecretMigratedTimestamp = None"
    by (simp add: keySecret_def lookupAnnotation_def)
  have h3: "jsonMarshal scenario ([] @ [secretsGR]) = (''/secrets;'', None)"
    by (simp add: scenario_def scenarioMarshal_def secretsGR_def)
  have h4: "FormatRFC3339 scenario (Now scenario 0) = ''1970-01-01T00:00:00Z''"
    by (simp add: scenario_def)
  have h5: "parseMigratedGRs scenario stampedKeySecret = [secretsGR]"
    by (simp add: parseMigratedGRs_def stampedKeySecret_def keySecret_def
        lookupAnnotation_def scenario_def scenarioUnmarshal_def secretsGR_def
        ts_ne_res ts_ne_res[symmetric])
  have h6: "lookupAnnotation stampedKeySecret EncryptionSecretMigratedTimestamp
              = Some ''1970-01-01T00:00:00Z''"
    by (simp add: stampedKeySecret_def keySecret_def lookupAnnotation_def)
  from setResourceMigrated_update
         [where s = keySecret and env = scenario and gr = secretsGR and x = 0] h1 h2 h3 h4
  have a: "parseMigratedGRs scenario keySecret = []
   \<and> fst (setResourceMigrated scenario 0 secretsGR keySecret) = (True, None)
   \<and> lookupAnnotation (snd (setResourceMigrated scenario 0 secretsGR keySecret))
        EncryptionSecretMigratedResources = Some ''/secrets;''
   \<and> lookupAnnotation (snd (setResourceMigrated scenario 0 secretsGR keySecret))
        EncryptionSecretMigratedTimestamp = Some ''1970-01-01T00:00:00Z''"
    by simp
  from setResourceMigrated_update
         [where s = stampedKeySecret and env = scenario and gr = secretsGR and x = 5] h5 h6
  have b: "setResourceMigrated scenario 5 secretsGR stampedKeySecret
             = ((False, None), stampedKeySecret)"
    by simp
  from a b h2 h3 h5 h6 show ?thesis by simp
qed

text \<open>
  C4. A resource recorded in the migrated-resources annotation of a key secret is still
  recorded after \<open>setResourceMigrated\<close>, whatever resource it is called with: the function
  only ever appends to the list it has read. What is recorded is what the function itself
  reads back, so the statement needs the JSON codec to return the list it has just
  serialised.
\<close>

theorem setResourceMigrated_monotone:
  assumes rt:
    "snd (jsonMarshal env (parseMigratedGRs env s @ [gr])) = None \<longrightarrow>
       jsonUnmarshal env (fst (jsonMarshal env (parseMigratedGRs env s @ [gr])))
         = (parseMigratedGRs env s @ [gr], None)"
  shows "set (parseMigratedGRs env s)
           \<subseteq> set (parseMigratedGRs env (snd (setResourceMigrated env x gr s)))"
proof (cases "jsonMarshal env (parseMigratedGRs env s @ [gr])")
  case (Pair bs err)
  show ?thesis
  proof (cases err)
    case None
    with Pair rt have "jsonUnmarshal env bs = (parseMigratedGRs env s @ [gr], None)" by simp
    with Pair None show ?thesis
      by (auto simp add: setResourceMigrated_def Let_def parse_setAnnotation_ts
          parse_setAnnotation_res)
  next
    case (Some e)
    with Pair show ?thesis
      by (simp add: setResourceMigrated_def Let_def parse_setAnnotation_ts)
  qed
qed

theorem setResourceMigrated_monotone_witness:
  "parseMigratedGRs scenario migratedKeySecret = [secretsGR]
   \<and> jsonMarshal scenario ([secretsGR] @ [deploymentsGR])
       = (''/secrets;apps/deployments;'', None)
   \<and> jsonUnmarshal scenario ''/secrets;apps/deployments;''
       = ([secretsGR] @ [deploymentsGR], None)
   \<and> set (parseMigratedGRs scenario migratedKeySecret)
       \<subseteq> set (parseMigratedGRs scenario
               (snd (setResourceMigrated scenario 0 deploymentsGR migratedKeySecret)))
   \<and> parseMigratedGRs scenario
        (snd (setResourceMigrated scenario 0 deploymentsGR migratedKeySecret))
       = [secretsGR, deploymentsGR]"
proof -
  have h1: "parseMigratedGRs scenario migratedKeySecret = [secretsGR]"
    by (simp add: parseMigratedGRs_def migratedKeySecret_def keySecret_def
        lookupAnnotation_def scenario_def scenarioUnmarshal_def secretsGR_def)
  have h2: "jsonMarshal scenario ([secretsGR] @ [deploymentsGR])
              = (''/secrets;apps/deployments;'', None)"
    by (simp add: scenario_def scenarioMarshal_def secretsGR_def deploymentsGR_def)
  have h3: "jsonUnmarshal scenario ''/secrets;apps/deployments;''
              = ([secretsGR] @ [deploymentsGR], None)"
    by (simp add: scenario_def scenarioUnmarshal_def secretsGR_def deploymentsGR_def)
  have h4: "secretsGR \<noteq> deploymentsGR"
    by (simp add: secretsGR_def deploymentsGR_def)
  have h5: "parseMigratedGRs scenario
        (snd (setResourceMigrated scenario 0 deploymentsGR migratedKeySecret))
       = [secretsGR, deploymentsGR]"
    using h1 h2 h3 h4
    by (simp add: setResourceMigrated_def Let_def parse_setAnnotation_ts
        parse_setAnnotation_res)
  from setResourceMigrated_monotone [where s = migratedKeySecret and env = scenario and gr = deploymentsGR and x = 0] h1 h2 h3 h5
  show ?thesis by simp
qed


section \<open>The gates of a tick\<close>

lemma isMigratorCall_simps [simp]:
  "isMigratorCall (CallEnsureMigration gr name)"
  "isMigratorCall (CallPruneMigration gr)"
  "\<not> isMigratorCall (CallAddAfter key d)"
  "\<not> isMigratorCall (CallGetSecret ns n)"
  "\<not> isMigratorCall (CallApplySecret s)"
  "\<not> isMigratorCall (CallUpdateStatus conditions)"
  "\<not> isMigratorCall (LogWarning m)"
  by (simp_all add: isMigratorCall_def)

lemma isSecretCall_simps [simp]:
  "\<not> isSecretCall (CallEnsureMigration gr name)"
  "\<not> isSecretCall (CallPruneMigration gr)"
  "\<not> isSecretCall (CallAddAfter key d)"
  "isSecretCall (CallGetSecret ns n)"
  "isSecretCall (CallApplySecret s)"
  "\<not> isSecretCall (CallUpdateStatus conditions)"
  "\<not> isSecretCall (LogWarning m)"
  by (simp_all add: isSecretCall_def)



lemma sync_ready:
  assumes "shouldRunEncryptionController env (ext w) = (True, None)"
    and "migrateKeysIfNeededAndRevisionStable env (EncryptedGRs env (ext w)) w
           = ((mig, err), w1)"
  shows "sync env w =
     deferredUpdateStatus env
       (Some (case err of None \<Rightarrow> initialDegradedCondition
              | Some e \<Rightarrow> initialDegradedCondition\<lparr>Status := ConditionTrue, Reason := ''Error'',
                           Message := ErrorString env e\<rparr>))
       (Some (if length mig > 0
              then initialProgressingCondition\<lparr>Status := ConditionTrue,
                     Reason := ''Migrating'',
                     Message := ''migrating resources to a new write key: ''
                       @ formatStrings (grsToHumanReadable mig)\<rparr>
              else initialProgressingCondition))
       err w1"
  using assms by (simp add: sync_def Let_def)

lemma deferredUpdateStatus_Some:
  "deferredUpdateStatus env (Some d) (Some p) err w =
     ((case fst (UpdateStatus env (ext w) [d, p]) of None \<Rightarrow> err | Some u \<Rightarrow> Some u),
      \<lparr>ext = snd (UpdateStatus env (ext w) [d, p]),
       calls = calls w @ [CallUpdateStatus [d, p]]\<rparr>)"
  by (simp add: deferredUpdateStatus_def callUpdateStatus_def split: prod.splits option.splits)

text \<open>
  C8 as stated fails: in a tick with a transitional reason the deferred status update still
  runs, and when it fails \<open>sync\<close> returns its error, not nil.
\<close>

theorem transitional_gate_counterexample:
  "shouldRunEncryptionController statusFailsTransitionalScenario (ext (tickStart 0)) = (True, None)
   \<and> GetEncryptionConfigAndState statusFailsTransitionalScenario (ext (tickStart 0))
        (EncryptedGRs statusFailsTransitionalScenario (ext (tickStart 0)))
       = (Some \<lparr>Resources = 1\<rparr>, scenarioState, ''APIServerRevisionNotConverged'', None)
   \<and> sync statusFailsTransitionalScenario (tickStart 0)
       = (Some (External ''update failed''),
          \<lparr>ext = 0, calls = [CallAddAfter ''key'' 120000000000,
            CallUpdateStatus [initialDegradedCondition, initialProgressingCondition]]\<rparr>)"
  by (simp add: statusFailsTransitionalScenario_def transitionalScenario_def scenario_def
      tickStart_def sync_def migrateKeysIfNeededAndRevisionStable_def requeue_def logCall_def
      deferredUpdateStatus_Some Minute_def)

text \<open>
  C8, amended. In a tick that passes the precondition check and reads the state without
  error, a nil current configuration or a non-empty transitional reason makes the driver
  re-queue the work item after two minutes and return \<open>nil, nil\<close>: no migrating resources, no
  error. The calls of the whole tick are that \<open>AddAfter\<close> and the status update, so the
  migrator is never invoked, and both conditions are written with status False. \<open>sync\<close>
  returns nil unless that final status update fails, in which case it returns the error of
  the update.
\<close>

theorem transitional_gate:
  assumes ready: "shouldRunEncryptionController env (ext w) = (True, None)"
    and state: "GetEncryptionConfigAndState env (ext w) (EncryptedGRs env (ext w))
                  = (currentEncryptionConfig, desired, isTransitionalReason, None)"
    and gate: "currentEncryptionConfig = None \<or> length isTransitionalReason > 0"
  shows "migrateKeysIfNeededAndRevisionStable env (EncryptedGRs env (ext w)) w
           = (([], None), \<lparr>ext = ext w, calls = calls w @ [CallAddAfter (QueueKey env) (2 * Minute)]\<rparr>)
         \<and> snd (sync env w) =
             \<lparr>ext = snd (UpdateStatus env (ext w)
                      [initialDegradedCondition, initialProgressingCondition]),
              calls = calls w @ [CallAddAfter (QueueKey env) (2 * Minute),
                        CallUpdateStatus [initialDegradedCondition, initialProgressingCondition]]\<rparr>
         \<and> fst (sync env w) =
             fst (UpdateStatus env (ext w) [initialDegradedCondition, initialProgressingCondition])
         \<and> Status initialDegradedCondition = ConditionFalse
         \<and> Status initialProgressingCondition = ConditionFalse"
proof -
  have drv: "migrateKeysIfNeededAndRevisionStable env (EncryptedGRs env (ext w)) w
           = (([], None), \<lparr>ext = ext w, calls = calls w @ [CallAddAfter (QueueKey env) (2 * Minute)]\<rparr>)"
    using state gate
    by (auto simp add: migrateKeysIfNeededAndRevisionStable_def requeue_def logCall_def
        split: option.splits)
  show ?thesis
    using drv sync_ready [OF ready drv]
    by (simp add: deferredUpdateStatus_Some initialDegradedCondition_def
        initialProgressingCondition_def split: option.splits)
qed


theorem transitional_gate_witness:
  "shouldRunEncryptionController transitionalScenario (ext (tickStart 0)) = (True, None)
   \<and> GetEncryptionConfigAndState transitionalScenario (ext (tickStart 0))
        (EncryptedGRs transitionalScenario (ext (tickStart 0)))
       = (Some \<lparr>Resources = 1\<rparr>, scenarioState, ''APIServerRevisionNotConverged'', None)
   \<and> length ''APIServerRevisionNotConverged'' > 0
   \<and> sync transitionalScenario (tickStart 0)
       = (None, \<lparr>ext = 0, calls = [CallAddAfter ''key'' 120000000000,
            CallUpdateStatus [initialDegradedCondition, initialProgressingCondition]]\<rparr>)"
proof -
  have h1: "shouldRunEncryptionController transitionalScenario (ext (tickStart 0)) = (True, None)"
    by (simp add: transitionalScenario_def scenario_def)
  have h2: "GetEncryptionConfigAndState transitionalScenario (ext (tickStart 0))
        (EncryptedGRs transitionalScenario (ext (tickStart 0)))
      = (Some \<lparr>Resources = 1\<rparr>, scenarioState, ''APIServerRevisionNotConverged'', None)"
    by (simp add: transitionalScenario_def)
  have h3: "Some \<lparr>Resources = 1::nat\<rparr> = None \<or> length ''APIServerRevisionNotConverged'' > 0"
    by simp
  have h4: "UpdateStatus transitionalScenario 0
              [initialDegradedCondition, initialProgressingCondition] = (None, 0)"
    by (simp add: transitionalScenario_def scenario_def)
  from transitional_gate [OF h1 h2 h3] h4
  have "snd (sync transitionalScenario (tickStart 0))
          = \<lparr>ext = 0, calls = [CallAddAfter ''key'' 120000000000,
               CallUpdateStatus [initialDegradedCondition, initialProgressingCondition]]\<rparr>
       \<and> fst (sync transitionalScenario (tickStart 0)) = None"
    by (simp add: tickStart_def transitionalScenario_def scenario_def Minute_def)
  then have "sync transitionalScenario (tickStart 0)
          = (None, \<lparr>ext = 0, calls = [CallAddAfter ''key'' 120000000000,
               CallUpdateStatus [initialDegradedCondition, initialProgressingCondition]]\<rparr>)"
    by (simp add: prod_eq_iff)
  with h1 h2 show ?thesis by simp
qed






text \<open>
  C7 as stated fails: when the precondition check reports false without an error, the
  condition pointers are not cleared, and the deferred status update writes both conditions
  with status False.
\<close>

theorem precondition_false_counterexample:
  "shouldRunEncryptionController disabledScenario (ext (tickStart 0)) = (False, None)
   \<and> sync disabledScenario (tickStart 0)
       = (None, \<lparr>ext = 0, calls =
            [CallUpdateStatus [initialDegradedCondition, initialProgressingCondition]]\<rparr>)"
  by (simp add: disabledScenario_def scenario_def tickStart_def sync_def
      deferredUpdateStatus_Some)

lemma deferredUpdateStatus_None: "deferredUpdateStatus env None None err w = (err, w)"
  by (simp add: deferredUpdateStatus_def)

text \<open>
  C7, amended. When the precondition check returns an error, \<open>sync\<close> makes no call at all, so
  no condition is written, and returns that error. When the check reports false without an
  error, \<open>sync\<close> does not run the driver; its only call is the status update that writes both
  conditions with status False, and it returns nil unless that update fails, whose error it
  then returns.
\<close>

theorem precondition_gate:
  "(\<forall>e. snd (shouldRunEncryptionController env (ext w)) = Some e \<longrightarrow>
      sync env w = (Some e, w))
   \<and> (shouldRunEncryptionController env (ext w) = (False, None) \<longrightarrow>
       sync env w
         = (fst (UpdateStatus env (ext w) [initialDegradedCondition, initialProgressingCondition]),
            \<lparr>ext = snd (UpdateStatus env (ext w)
                     [initialDegradedCondition, initialProgressingCondition]),
             calls = calls w
               @ [CallUpdateStatus [initialDegradedCondition, initialProgressingCondition]]\<rparr>))"
  by (auto simp add: sync_def deferredUpdateStatus_Some deferredUpdateStatus_None
      split: option.splits prod.splits)

theorem precondition_gate_witness:
  "shouldRunEncryptionController preconditionErrorScenario (ext (tickStart 0))
     = (False, Some (External ''operator client not synced''))
   \<and> sync preconditionErrorScenario (tickStart 0)
       = (Some (External ''operator client not synced''), tickStart 0)
   \<and> shouldRunEncryptionController disabledScenario (ext (tickStart 0)) = (False, None)
   \<and> sync disabledScenario (tickStart 0)
       = (None, \<lparr>ext = 0, calls =
            [CallUpdateStatus [initialDegradedCondition, initialProgressingCondition]]\<rparr>)"
proof -
  have h1: "shouldRunEncryptionController preconditionErrorScenario (ext (tickStart 0))
     = (False, Some (External ''operator client not synced''))"
    by (simp add: preconditionErrorScenario_def)
  have h2: "shouldRunEncryptionController disabledScenario (ext (tickStart 0)) = (False, None)"
    by (simp add: disabledScenario_def)
  have h3: "\<And>x cs. UpdateStatus disabledScenario x cs = (None, x)"
    by (simp add: disabledScenario_def scenario_def)
  from precondition_gate [where env = preconditionErrorScenario and w = "tickStart 0"]
    precondition_gate [where env = disabledScenario and w = "tickStart 0"] h1 h2
  show ?thesis by (simp add: h3 tickStart_def)
qed


section \<open>The migration loop\<close>




lemma NewAggregate_somes:
  "NewAggregate errlist =
     (case concat (map (\<lambda>e. case e of None \<Rightarrow> [] | Some x \<Rightarrow> [x]) errlist) of
        [] \<Rightarrow> None
      | e # es \<Rightarrow> Some (Aggregate (e # es)))"
proof (cases "concat (map (\<lambda>e. case e of None \<Rightarrow> [] | Some x \<Rightarrow> [x]) errlist)")
  case Nil
  then show ?thesis
    unfolding NewAggregate_def Let_def by (simp del: concat_eq_Nil_conv)
next
  case (Cons e es)
  then have "errlist \<noteq> []" by auto
  with Cons show ?thesis
    unfolding NewAggregate_def Let_def by (simp del: concat_eq_Nil_conv)
qed

lemma NewAggregate_drop_nil:
  "NewAggregate (errs @ None # rest) = NewAggregate (errs @ rest)"
  by (simp add: NewAggregate_somes)

lemma secret_calls_ensureMigrationWithRetry:
  "filter isSecretCall (calls (snd (ensureMigrationWithRetry env gr name w)))
     = filter isSecretCall (calls w)"
  by (auto simp add: ensureMigrationWithRetry_def callEnsureMigration_def callPruneMigration_def
      split: prod.splits option.splits)

text \<open>
  C10. When the migration of a resource has finished without error and \<open>FromKeyState\<close> fails
  on the write key, the loop body skips the annotation step (no call on the secret client)
  and appends \<open>result\<close>, which is nil, to the errors, not the conversion error. A nil entry
  adds nothing to the aggregate. In a tick whose current state has only this resource the
  driver therefore returns no error and \<open>sync\<close> writes the Degraded condition with status
  False.
\<close>

theorem conversion_failure_dropped:
  assumes state_gr: "map_of currentState gr = Some grActualKeys"
    and has_key: "HasWriteKey env grActualKeys"
    and not_migrated: "\<not> MigratedFor env [gr] (WriteKey grActualKeys)"
    and ensured: "ensureMigrationWithRetry env gr (KeyName env (WriteKey grActualKeys)) w
                     = (Inr (True, None, when, None), w1)"
    and not_converted: "FromKeyState env (component env) (WriteKey grActualKeys) = (s, Some e)"
  shows "migrateGR env currentState gr (errs, migratingResources, w)
           = (errs @ [None], migratingResources, w1)
     \<and> filter isSecretCall (calls w1) = filter isSecretCall (calls w)
     \<and> NewAggregate (errs @ [None]) = NewAggregate errs
     \<and> (\<forall>rest. NewAggregate (errs @ None # rest) = NewAggregate (errs @ rest))
     \<and> (shouldRunEncryptionController env (ext w) = (True, None)
          \<and> GetEncryptionConfigAndState env (ext w) (EncryptedGRs env (ext w))
               = (Some cfg, desired, [], None)
          \<and> ListKeySecrets env (ext w) = (encryptionSecrets, None)
          \<and> Resources cfg = Resources (FromEncryptionState env desired)
          \<and> ToEncryptionState env cfg encryptionSecrets = currentState
          \<and> map fst currentState = [gr] \<longrightarrow>
         migrateKeysIfNeededAndRevisionStable env (EncryptedGRs env (ext w)) w
           = (([], None), w1)
         \<and> sync env w
             = deferredUpdateStatus env (Some initialDegradedCondition)
                 (Some initialProgressingCondition) None w1)"
proof -
  have body: "\<And>errs migratingResources.
      migrateGR env currentState gr (errs, migratingResources, w)
           = (errs @ [None], migratingResources, w1)"
    using state_gr has_key not_migrated ensured not_converted by (simp add: migrateGR_def)
  have secret: "filter isSecretCall (calls w1) = filter isSecretCall (calls w)"
    using secret_calls_ensureMigrationWithRetry
      [of env gr "KeyName env (WriteKey grActualKeys)" w] ensured by simp
  have agg: "NewAggregate (errs @ [None]) = NewAggregate errs"
    using NewAggregate_drop_nil [of errs "[]"] by simp
  have tick: "shouldRunEncryptionController env (ext w) = (True, None)
          \<and> GetEncryptionConfigAndState env (ext w) (EncryptedGRs env (ext w))
               = (Some cfg, desired, [], None)
          \<and> ListKeySecrets env (ext w) = (encryptionSecrets, None)
          \<and> Resources cfg = Resources (FromEncryptionState env desired)
          \<and> ToEncryptionState env cfg encryptionSecrets = currentState
          \<and> map fst currentState = [gr] \<longrightarrow>
         migrateKeysIfNeededAndRevisionStable env (EncryptedGRs env (ext w)) w
           = (([], None), w1)
         \<and> sync env w
             = deferredUpdateStatus env (Some initialDegradedCondition)
                 (Some initialProgressingCondition) None w1"
  proof (intro impI, elim conjE)
    assume ready: "shouldRunEncryptionController env (ext w) = (True, None)"
      and state: "GetEncryptionConfigAndState env (ext w) (EncryptedGRs env (ext w))
               = (Some cfg, desired, [], None)"
      and secrets: "ListKeySecrets env (ext w) = (encryptionSecrets, None)"
      and stable: "Resources cfg = Resources (FromEncryptionState env desired)"
      and cs: "ToEncryptionState env cfg encryptionSecrets = currentState"
      and single: "map fst currentState = [gr]"
    have drv: "migrateKeysIfNeededAndRevisionStable env (EncryptedGRs env (ext w)) w
           = (([], None), w1)"
      using state secrets stable cs single body [of "[]" "[]"]
      by (simp add: migrateKeysIfNeededAndRevisionStable_def Let_def sortGRs_def
          NewAggregate_def)
    show "migrateKeysIfNeededAndRevisionStable env (EncryptedGRs env (ext w)) w
           = (([], None), w1)
         \<and> sync env w
             = deferredUpdateStatus env (Some initialDegradedCondition)
                 (Some initialProgressingCondition) None w1"
      using drv sync_ready [OF ready drv] by simp
  qed
  show ?thesis
    using body secret agg tick NewAggregate_drop_nil by blast
qed


theorem conversion_failure_dropped_witness:
  "map_of [(secretsGR, \<lparr>WriteKey = ''encryption-key-1'', ReadKeys = []\<rparr>)] secretsGR
     = Some \<lparr>WriteKey = ''encryption-key-1'', ReadKeys = []\<rparr>
   \<and> HasWriteKey conversionFailsScenario \<lparr>WriteKey = ''encryption-key-1'', ReadKeys = []\<rparr>
   \<and> \<not> MigratedFor conversionFailsScenario [secretsGR] ''encryption-key-1''
   \<and> ensureMigrationWithRetry conversionFailsScenario secretsGR ''encryption-key-1'' (tickStart 0)
       = (Inr (True, None, 0, None),
          \<lparr>ext = 0, calls = [CallEnsureMigration secretsGR ''encryption-key-1'']\<rparr>)
   \<and> snd (FromKeyState conversionFailsScenario ''kube-apiserver'' ''encryption-key-1'')
       = Some (External ''invalid key'')
   \<and> migrateGR conversionFailsScenario
        [(secretsGR, \<lparr>WriteKey = ''encryption-key-1'', ReadKeys = []\<rparr>)] secretsGR
        ([], [], tickStart 0)
       = ([None], [], \<lparr>ext = 0, calls = [CallEnsureMigration secretsGR ''encryption-key-1'']\<rparr>)
   \<and> NewAggregate [None] = None
   \<and> sync conversionFailsScenario (tickStart 0)
       = (None, \<lparr>ext = 0, calls = [CallEnsureMigration secretsGR ''encryption-key-1'',
            CallUpdateStatus [initialDegradedCondition, initialProgressingCondition]]\<rparr>)"
proof -
  let ?k = "\<lparr>WriteKey = ''encryption-key-1'', ReadKeys = []\<rparr> :: string GroupResourceState"
  let ?w1 = "\<lparr>ext = 0, calls = [CallEnsureMigration secretsGR ''encryption-key-1'']\<rparr> :: Time world"
  have env:
    "component conversionFailsScenario = ''kube-apiserver''"
    "\<And>x. shouldRunEncryptionController conversionFailsScenario x = (True, None)"
    "\<And>x. EncryptedGRs conversionFailsScenario x = [configmapsGR, deploymentsGR]"
    "\<And>x grs. GetEncryptionConfigAndState conversionFailsScenario x grs
        = (Some \<lparr>Resources = 1\<rparr>, scenarioState, [], None)"
    "\<And>x. ListKeySecrets conversionFailsScenario x = ([], None)"
    "\<And>cfg secrets. ToEncryptionState conversionFailsScenario cfg secrets = [(secretsGR, ?k)]"
    "\<And>d. FromEncryptionState conversionFailsScenario d = \<lparr>Resources = 1\<rparr>"
    "\<And>k. HasWriteKey conversionFailsScenario k = (length (WriteKey k) > 0)"
    "\<And>k. KeyName conversionFailsScenario k = k"
    "\<And>grs k. MigratedFor conversionFailsScenario grs k = False"
    "\<And>c k. FromKeyState conversionFailsScenario c k
        = (\<lparr>Namespace = [], Name = [], Annotations = None\<rparr>, Some (External ''invalid key''))"
    "\<And>x gr name. EnsureMigration conversionFailsScenario x gr name = ((True, None, 0, None), x)"
    "\<And>x cs. UpdateStatus conversionFailsScenario x cs = (None, x)"
    by (simp_all add: conversionFailsScenario_def finishedScenario_def scenario_def)
  have h1: "map_of [(secretsGR, ?k)] secretsGR = Some ?k" by simp
  have h2: "HasWriteKey conversionFailsScenario ?k" by (simp add: env)
  have h3: "\<not> MigratedFor conversionFailsScenario [secretsGR] (WriteKey ?k)" by (simp add: env)
  have h4: "ensureMigrationWithRetry conversionFailsScenario secretsGR
              (KeyName conversionFailsScenario (WriteKey ?k)) (tickStart 0)
            = (Inr (True, None, 0, None), ?w1)"
    by (simp add: ensureMigrationWithRetry_def callEnsureMigration_def env tickStart_def)
  have h5: "FromKeyState conversionFailsScenario (component conversionFailsScenario) (WriteKey ?k)
        = (\<lparr>Namespace = [], Name = [], Annotations = None\<rparr>, Some (External ''invalid key''))"
    by (simp add: env)
  have h6: "shouldRunEncryptionController conversionFailsScenario (ext (tickStart 0)) = (True, None)
          \<and> GetEncryptionConfigAndState conversionFailsScenario (ext (tickStart 0))
                (EncryptedGRs conversionFailsScenario (ext (tickStart 0)))
               = (Some \<lparr>Resources = 1\<rparr>, scenarioState, [], None)
          \<and> ListKeySecrets conversionFailsScenario (ext (tickStart 0)) = ([], None)
          \<and> Resources \<lparr>Resources = 1::nat\<rparr>
              = Resources (FromEncryptionState conversionFailsScenario scenarioState)
          \<and> ToEncryptionState conversionFailsScenario \<lparr>Resources = 1\<rparr> [] = [(secretsGR, ?k)]
          \<and> map fst [(secretsGR, ?k)] = [secretsGR]"
    by (simp add: env)
  from conversion_failure_dropped [OF h1 h2 h3 h4 h5,
      where errs = "[]" and migratingResources = "[]" and cfg = "\<lparr>Resources = 1\<rparr>"
        and desired = scenarioState and encryptionSecrets = "[]"] h6
  have "migrateGR conversionFailsScenario [(secretsGR, ?k)] secretsGR ([], [], tickStart 0)
          = ([None], [], ?w1)
      \<and> NewAggregate [None] = None
      \<and> sync conversionFailsScenario (tickStart 0)
          = deferredUpdateStatus conversionFailsScenario (Some initialDegradedCondition)
                 (Some initialProgressingCondition) None ?w1"
    by (simp add: NewAggregate_def env)
  then show ?thesis
    using h1 h2 h3 h4 h5 by (simp add: deferredUpdateStatus_Some env)
qed


section \<open>Retry after failure\<close>

lemma scenario_fields:
  "component scenario = ''kube-apiserver''"
  "QueueKey scenario = ''key''"
  "\<And>x. shouldRunEncryptionController scenario x = (True, None)"
  "\<And>x. EncryptedGRs scenario x = [configmapsGR, deploymentsGR]"
  "\<And>x grs. GetEncryptionConfigAndState scenario x grs
      = (Some \<lparr>Resources = 1\<rparr>, scenarioState, [], None)"
  "\<And>x. ListKeySecrets scenario x = ([], None)"
  "\<And>cfg secrets. ToEncryptionState scenario cfg secrets = scenarioState"
  "\<And>d. FromEncryptionState scenario d = \<lparr>Resources = 1\<rparr>"
  "\<And>k. HasWriteKey scenario k = (length (WriteKey k) > 0)"
  "\<And>k. KeyName scenario k = k"
  "\<And>grs k. MigratedFor scenario grs k = False"
  "\<And>x gr name. EnsureMigration scenario x gr name = ((False, None, 0, None), x)"
  "\<And>x gr. PruneMigration scenario x gr = (None, x)"
  "\<And>x cs. UpdateStatus scenario x cs = (None, x)"
  "\<And>x. Now scenario x = x"
  "\<And>e. ErrorString scenario e = ''error''"
  by (simp_all add: scenario_def)

lemma failedScenario_fields:
  "component failedScenario = ''kube-apiserver''"
  "\<And>x. shouldRunEncryptionController failedScenario x = (True, None)"
  "\<And>x. EncryptedGRs failedScenario x = [configmapsGR, deploymentsGR]"
  "\<And>x grs. GetEncryptionConfigAndState failedScenario x grs
      = (Some \<lparr>Resources = 1\<rparr>, scenarioState, [], None)"
  "\<And>x. ListKeySecrets failedScenario x = ([], None)"
  "\<And>cfg secrets. ToEncryptionState failedScenario cfg secrets = scenarioState"
  "\<And>d. FromEncryptionState failedScenario d = \<lparr>Resources = 1\<rparr>"
  "\<And>k. HasWriteKey failedScenario k = (length (WriteKey k) > 0)"
  "\<And>k. KeyName failedScenario k = k"
  "\<And>grs k. MigratedFor failedScenario grs k = False"
  "\<And>x gr name. EnsureMigration failedScenario x gr name
      = ((True, Some (External ''migration failed''), 0, None), x)"
  "\<And>x gr. PruneMigration failedScenario x gr = (None, x)"
  "\<And>x cs. UpdateStatus failedScenario x cs = (None, x)"
  "\<And>x. Now failedScenario x = x"
  "\<And>e. ErrorString failedScenario e = ''error''"
  by (simp_all add: failedScenario_def scenario_def)

lemma pruneFailsScenario_fields:
  "component pruneFailsScenario = ''kube-apiserver''"
  "\<And>x. shouldRunEncryptionController pruneFailsScenario x = (True, None)"
  "\<And>x. EncryptedGRs pruneFailsScenario x = [configmapsGR, deploymentsGR]"
  "\<And>x grs. GetEncryptionConfigAndState pruneFailsScenario x grs
      = (Some \<lparr>Resources = 1\<rparr>, scenarioState, [], None)"
  "\<And>x. ListKeySecrets pruneFailsScenario x = ([], None)"
  "\<And>cfg secrets. ToEncryptionState pruneFailsScenario cfg secrets = scenarioState"
  "\<And>d. FromEncryptionState pruneFailsScenario d = \<lparr>Resources = 1\<rparr>"
  "\<And>k. HasWriteKey pruneFailsScenario k = (length (WriteKey k) > 0)"
  "\<And>k. KeyName pruneFailsScenario k = k"
  "\<And>grs k. MigratedFor pruneFailsScenario grs k = False"
  "\<And>x gr name. EnsureMigration pruneFailsScenario x gr name
      = ((True, Some (External ''migration failed''), 0, None), x)"
  "\<And>x gr. PruneMigration pruneFailsScenario x gr = (Some (External ''prune failed''), x)"
  "\<And>x cs. UpdateStatus pruneFailsScenario x cs = (None, x)"
  "\<And>x. Now pruneFailsScenario x = x"
  "\<And>e. ErrorString pruneFailsScenario e = ''error''"
  by (simp_all add: pruneFailsScenario_def failedScenario_def scenario_def)

lemma scenario_keys:
  "map_of scenarioState deploymentsGR = Some \<lparr>WriteKey = ''encryption-key-1'', ReadKeys = []\<rparr>"
  "map_of scenarioState configmapsGR = Some \<lparr>WriteKey = ''encryption-key-1'', ReadKeys = []\<rparr>"
  "sortGRs (map fst scenarioState) = [configmapsGR, deploymentsGR]"
  by (simp_all add: scenarioState_def deploymentsGR_def configmapsGR_def sortGRs_def
      GroupResource_String_def)

text \<open>
  C2 as stated fails: ten minutes after a failed migration the driver prunes, the prune
  fails, and \<open>EnsureMigration\<close> is not invoked again; the prune error is what the loop
  records for the resource.
\<close>

theorem retry_without_reinvoke_counterexample:
  "EnsureMigration pruneFailsScenario (10 * Minute) deploymentsGR ''encryption-key-1''
     = ((True, Some (External ''migration failed''), 0, None), 10 * Minute)
   \<and> Now pruneFailsScenario (10 * Minute) - 0 > migrationRetryDuration
   \<and> migrateGR pruneFailsScenario scenarioState deploymentsGR ([], [], tickStart (10 * Minute))
       = ([Some (External ''prune failed'')], [],
          \<lparr>ext = 10 * Minute,
           calls = [CallEnsureMigration deploymentsGR ''encryption-key-1'',
                    CallPruneMigration deploymentsGR]\<rparr>)"
  by (simp add: migrateGR_def ensureMigrationWithRetry_def callEnsureMigration_def
      callPruneMigration_def pruneFailsScenario_fields scenario_keys tickStart_def
      Minute_def migrationRetryDuration_def)

text \<open>
  C2, amended. Let \<open>EnsureMigration\<close> return without error, \<open>finished\<close> and with a non-nil
  \<open>lastResult\<close>, for a resource the loop does not skip. If more than five minutes have
  passed since \<open>lastAt\<close>, the driver calls \<open>PruneMigration\<close>; when that succeeds it
  invokes \<open>EnsureMigration\<close> again with the same arguments; when it fails the prune error is
  recorded as the error of the resource, \<open>EnsureMigration\<close> is not invoked again, and the
  loop continues. If five minutes or less have passed, \<open>lastResult\<close> is recorded as the
  error of the resource, nothing is pruned, and the loop continues.
\<close>

theorem retry_after_failure:
  assumes state_gr: "map_of currentState gr = Some grActualKeys"
    and has_key: "HasWriteKey env grActualKeys"
    and not_migrated: "\<not> MigratedFor env [gr] (WriteKey grActualKeys)"
    and name: "name = KeyName env (WriteKey grActualKeys)"
    and ensured: "EnsureMigration env (ext w) gr name = ((True, Some r, lastAt, None), x1)"
  shows "(Now env x1 - lastAt > migrationRetryDuration \<longrightarrow>
           (\<forall>x2. PruneMigration env x1 gr = (None, x2) \<longrightarrow>
              ensureMigrationWithRetry env gr name w
                = (Inr (fst (EnsureMigration env x2 gr name)),
                   \<lparr>ext = snd (EnsureMigration env x2 gr name),
                    calls = calls w @ [CallEnsureMigration gr name, CallPruneMigration gr,
                              CallEnsureMigration gr name]\<rparr>))
           \<and> (\<forall>e x2. PruneMigration env x1 gr = (Some e, x2) \<longrightarrow>
              migrateGR env currentState gr (errs, migratingResources, w)
                = (errs @ [Some e], migratingResources,
                   \<lparr>ext = x2,
                    calls = calls w @ [CallEnsureMigration gr name, CallPruneMigration gr]\<rparr>)))
     \<and> (Now env x1 - lastAt \<le> migrationRetryDuration \<longrightarrow>
          migrateGR env currentState gr (errs, migratingResources, w)
            = (errs @ [Some r], migratingResources,
               \<lparr>ext = x1, calls = calls w @ [CallEnsureMigration gr name]\<rparr>))"
  using assms
  by (auto simp add: migrateGR_def ensureMigrationWithRetry_def callEnsureMigration_def
      callPruneMigration_def split: prod.splits)

theorem retry_after_failure_witness:
  "map_of scenarioState deploymentsGR = Some \<lparr>WriteKey = ''encryption-key-1'', ReadKeys = []\<rparr>
   \<and> HasWriteKey failedScenario \<lparr>WriteKey = ''encryption-key-1'', ReadKeys = []\<rparr>
   \<and> \<not> MigratedFor failedScenario [deploymentsGR] ''encryption-key-1''
   \<and> EnsureMigration failedScenario (10 * Minute) deploymentsGR ''encryption-key-1''
       = ((True, Some (External ''migration failed''), 0, None), 10 * Minute)
   \<and> Now failedScenario (10 * Minute) - 0 > migrationRetryDuration
   \<and> PruneMigration failedScenario (10 * Minute) deploymentsGR = (None, 10 * Minute)
   \<and> calls (snd (ensureMigrationWithRetry failedScenario deploymentsGR ''encryption-key-1''
                    (tickStart (10 * Minute))))
       = [CallEnsureMigration deploymentsGR ''encryption-key-1'',
          CallPruneMigration deploymentsGR,
          CallEnsureMigration deploymentsGR ''encryption-key-1'']
   \<and> EnsureMigration failedScenario Minute deploymentsGR ''encryption-key-1''
       = ((True, Some (External ''migration failed''), 0, None), Minute)
   \<and> Now failedScenario Minute - 0 \<le> migrationRetryDuration
   \<and> migrateGR failedScenario scenarioState deploymentsGR ([], [], tickStart Minute)
       = ([Some (External ''migration failed'')], [],
          \<lparr>ext = Minute, calls = [CallEnsureMigration deploymentsGR ''encryption-key-1'']\<rparr>)"
proof -
  let ?k = "\<lparr>WriteKey = ''encryption-key-1'', ReadKeys = []\<rparr> :: string GroupResourceState"
  have h1: "map_of scenarioState deploymentsGR = Some ?k" by (simp add: scenario_keys)
  have h2: "HasWriteKey failedScenario ?k" by (simp add: failedScenario_fields)
  have h3: "\<not> MigratedFor failedScenario [deploymentsGR] (WriteKey ?k)"
    by (simp add: failedScenario_fields)
  have h4: "''encryption-key-1'' = KeyName failedScenario (WriteKey ?k)"
    by (simp add: failedScenario_fields)
  have h5: "\<And>t. EnsureMigration failedScenario (ext (tickStart t)) deploymentsGR
              ''encryption-key-1''
            = ((True, Some (External ''migration failed''), 0, None), t)"
    by (simp add: failedScenario_fields tickStart_def)
  have h6: "Now failedScenario (10 * Minute) - 0 > migrationRetryDuration"
    by (simp add: failedScenario_fields Minute_def migrationRetryDuration_def)
  have h7: "Now failedScenario Minute - 0 \<le> migrationRetryDuration"
    by (simp add: failedScenario_fields Minute_def migrationRetryDuration_def)
  from retry_after_failure [OF h1 h2 h3 h4 h5, where errs = "[]" and migratingResources = "[]"]
    h6 h1 h2 h3
  have a: "calls (snd (ensureMigrationWithRetry failedScenario deploymentsGR ''encryption-key-1''
                    (tickStart (10 * Minute))))
       = [CallEnsureMigration deploymentsGR ''encryption-key-1'',
          CallPruneMigration deploymentsGR,
          CallEnsureMigration deploymentsGR ''encryption-key-1'']"
    by (simp add: failedScenario_fields tickStart_def)
  from retry_after_failure [OF h1 h2 h3 h4 h5, where errs = "[]" and migratingResources = "[]"]
    h7
  have b: "migrateGR failedScenario scenarioState deploymentsGR ([], [], tickStart Minute)
       = ([Some (External ''migration failed'')], [],
          \<lparr>ext = Minute, calls = [CallEnsureMigration deploymentsGR ''encryption-key-1'']\<rparr>)"
    by (simp add: failedScenario_fields tickStart_def)
  from a b h1 h2 h3 h6 h7 show ?thesis
    by (simp add: failedScenario_fields)
qed


section \<open>Errors of PruneMigration\<close>

lemma NewAggregate_member:
  "\<exists>es. NewAggregate (errs @ Some e # rest) = Some (Aggregate es) \<and> e \<in> set es"
proof -
  let ?es = "concat (map (\<lambda>e. case e of None \<Rightarrow> [] | Some x \<Rightarrow> [x]) (errs @ Some e # rest))"
  have "e \<in> set ?es" by simp
  moreover have "NewAggregate (errs @ Some e # rest) = Some (Aggregate ?es)"
    by (cases ?es) (simp_all add: NewAggregate_somes)
  ultimately show ?thesis by blast
qed

text \<open>
  C6 as stated fails: at the retry call site a prune error is appended to the errors of the
  loop, and the aggregate that \<open>sync\<close> returns is made of the prune errors of both
  resources.
\<close>

theorem prune_error_surfaced_counterexample:
  "PruneMigration pruneFailsScenario (10 * Minute) configmapsGR
     = (Some (External ''prune failed''), 10 * Minute)
   \<and> fst (sync pruneFailsScenario (tickStart (10 * Minute)))
       = Some (Aggregate [External ''prune failed'', External ''prune failed''])
   \<and> calls (snd (sync pruneFailsScenario (tickStart (10 * Minute))))
       = [CallEnsureMigration configmapsGR ''encryption-key-1'',
          CallPruneMigration configmapsGR,
          CallEnsureMigration deploymentsGR ''encryption-key-1'',
          CallPruneMigration deploymentsGR,
          CallUpdateStatus
            [\<lparr>Type = ''EncryptionMigrationControllerDegraded'', Status = ConditionTrue,
              Reason = ''Error'', Message = ''error''\<rparr>,
             initialProgressingCondition]]"
  by (simp add: sync_def migrateKeysIfNeededAndRevisionStable_def migrateGR_def
      ensureMigrationWithRetry_def callEnsureMigration_def callPruneMigration_def
      pruneFailsScenario_fields scenario_keys tickStart_def Minute_def
      migrationRetryDuration_def NewAggregate_def deferredUpdateStatus_Some
      initialDegradedCondition_def)

lemma divergedScenario_fields:
  "QueueKey divergedScenario = ''key''"
  "\<And>x. shouldRunEncryptionController divergedScenario x = (True, None)"
  "\<And>x. EncryptedGRs divergedScenario x = [configmapsGR, deploymentsGR]"
  "\<And>x grs. GetEncryptionConfigAndState divergedScenario x grs
      = (Some \<lparr>Resources = 1\<rparr>, scenarioState, [], None)"
  "\<And>x. ListKeySecrets divergedScenario x = ([], None)"
  "\<And>cfg secrets. ToEncryptionState divergedScenario cfg secrets = scenarioState"
  "\<And>d. FromEncryptionState divergedScenario d = \<lparr>Resources = 2\<rparr>"
  "\<And>x gr. PruneMigration divergedScenario x gr
      = (if gr = deploymentsGR then Some (External ''prune failed'') else None, x)"
  "\<And>x cs. UpdateStatus divergedScenario x cs = (None, x)"
  by (simp_all add: divergedScenario_def scenario_def)

section \<open>The order of the migrating resources\<close>

lemma migrateGR_migrating:
  "fst (snd (migrateGR env currentState gr (errs, migratingResources, w))) = migratingResources
   \<or> fst (snd (migrateGR env currentState gr (errs, migratingResources, w)))
       = migratingResources @ [gr]"
  by (auto simp add: migrateGR_def split: option.splits prod.splits sum.splits)

lemma migrateGRs_invariant:
  assumes smaller: "\<And>m gr rest. Q (m @ gr # rest) \<Longrightarrow> Q (m @ rest)"
  shows "Q (migratingResources @ grs) \<Longrightarrow>
         Q (fst (snd (migrateGRs env currentState grs (errs, migratingResources, w))))"
proof (induction grs arbitrary: errs migratingResources w)
  case Nil
  then show ?case by simp
next
  case (Cons gr grs)
  obtain errs1 mig1 w1 where
    step: "migrateGR env currentState gr (errs, migratingResources, w) = (errs1, mig1, w1)"
    by (cases "migrateGR env currentState gr (errs, migratingResources, w)") auto
  from migrateGR_migrating [of env currentState gr errs migratingResources w] step
  have "mig1 = migratingResources \<or> mig1 = migratingResources @ [gr]" by simp
  then have "Q (mig1 @ grs)"
    using Cons.prems smaller [of migratingResources gr grs] by auto
  from Cons.IH [OF this] step show ?case by simp
qed

lemma sorted_smaller:
  "sorted (map f (m @ gr # rest)) \<Longrightarrow> sorted (map f (m @ rest))"
  by (auto simp add: sorted_append)

lemma distinct_smaller:
  "distinct (map f (m @ gr # rest)) \<Longrightarrow> distinct (map f (m @ rest))"
  by auto

lemma distinct_map_sort_key:
  "distinct (map f xs) \<Longrightarrow> distinct (map f (sort_key f xs))"
  by (simp add: distinct_map)

lemma migrating_cases:
  "fst (fst (migrateKeysIfNeededAndRevisionStable env encryptedGRs w)) = []
   \<or> (\<exists>cfg desired encryptionSecrets.
        GetEncryptionConfigAndState env (ext w) encryptedGRs = (Some cfg, desired, [], None)
        \<and> ListKeySecrets env (ext w) = (encryptionSecrets, None)
        \<and> fst (fst (migrateKeysIfNeededAndRevisionStable env encryptedGRs w))
            = fst (snd (migrateGRs env (ToEncryptionState env cfg encryptionSecrets)
                          (sortGRs (map fst (ToEncryptionState env cfg encryptionSecrets)))
                          ([], [], w))))"
  by (auto simp add: migrateKeysIfNeededAndRevisionStable_def Let_def
      split: prod.splits option.splits)

lemma sorted_unique_by_key:
  assumes "sorted (map f xs)" "distinct (map f xs)" "sorted (map f ys)" "distinct (map f ys)"
    and "set xs = set ys"
  shows "xs = ys"
proof -
  have "set (map f xs) = set (map f ys)" using assms(5) by simp
  with assms have eq: "map f xs = map f ys"
    by (intro sorted_distinct_set_unique) auto
  have "inj_on f (set xs \<union> set ys)"
    using assms(2,5) by (simp add: distinct_map)
  with eq show ?thesis by (simp add: inj_on_map_eq_map)
qed

lemma grsToHumanReadable_map:
  "grsToHumanReadable grs
     = map (\<lambda>gr. (if Group gr = [] then ''core'' else Group gr) @ ''/'' @ Resource gr) grs"
  by (induction grs) (simp_all add: groupToHumanReadable_def)


lemma scenario_driver:
  "migrateKeysIfNeededAndRevisionStable scenario [configmapsGR, deploymentsGR] (tickStart 0)
     = (([configmapsGR, deploymentsGR], None),
        \<lparr>ext = 0, calls = [CallEnsureMigration configmapsGR ''encryption-key-1'',
          CallEnsureMigration deploymentsGR ''encryption-key-1'']\<rparr>)"
  by (simp add: migrateKeysIfNeededAndRevisionStable_def migrateGR_def
      ensureMigrationWithRetry_def callEnsureMigration_def scenario_fields scenario_keys
      tickStart_def NewAggregate_def)

text \<open>
  C9 as stated fails: the driver sorts by \<open>GroupResource.String()\<close>, which puts the resource
  before the group, and the message renders group before resource. With \<open>configmaps\<close> of
  the core group and \<open>deployments\<close> of \<open>apps\<close> both migrating, the message lists
  \<open>core/configmaps\<close> before \<open>apps/deployments\<close>.
\<close>

theorem progressing_message_counterexample:
  "fst (fst (migrateKeysIfNeededAndRevisionStable scenario [configmapsGR, deploymentsGR]
               (tickStart 0)))
     = [configmapsGR, deploymentsGR]
   \<and> grsToHumanReadable [configmapsGR, deploymentsGR] = [''core/configmaps'', ''apps/deployments'']
   \<and> \<not> sorted [''core/configmaps'', ''apps/deployments'']
   \<and> calls (snd (sync scenario (tickStart 0)))
       = [CallEnsureMigration configmapsGR ''encryption-key-1'',
          CallEnsureMigration deploymentsGR ''encryption-key-1'',
          CallUpdateStatus
            [initialDegradedCondition,
             \<lparr>Type = ''EncryptionMigrationControllerProgressing'', Status = ConditionTrue,
              Reason = ''Migrating'',
              Message = ''migrating resources to a new write key: [core/configmaps apps/deployments]''\<rparr>]]"
proof -
  note drv = scenario_driver
  have h: "grsToHumanReadable [configmapsGR, deploymentsGR]
             = [''core/configmaps'', ''apps/deployments'']"
    by (simp add: groupToHumanReadable_def configmapsGR_def deploymentsGR_def)
  have s: "sync scenario (tickStart 0)
     = deferredUpdateStatus scenario (Some initialDegradedCondition)
         (Some (initialProgressingCondition\<lparr>Status := ConditionTrue, Reason := ''Migrating'',
            Message := ''migrating resources to a new write key: ''
               @ formatStrings (grsToHumanReadable [configmapsGR, deploymentsGR])\<rparr>))
         None
         \<lparr>ext = 0, calls = [CallEnsureMigration configmapsGR ''encryption-key-1'',
            CallEnsureMigration deploymentsGR ''encryption-key-1'']\<rparr>"
    using sync_ready [where env = scenario and w = "tickStart 0", OF _ drv [folded scenario_fields(4) [of "ext (tickStart 0)"]]]
    by (simp add: scenario_fields)
  have c: "calls (snd (sync scenario (tickStart 0)))
       = [CallEnsureMigration configmapsGR ''encryption-key-1'',
          CallEnsureMigration deploymentsGR ''encryption-key-1'',
          CallUpdateStatus
            [initialDegradedCondition,
             \<lparr>Type = ''EncryptionMigrationControllerProgressing'', Status = ConditionTrue,
              Reason = ''Migrating'',
              Message = ''migrating resources to a new write key: [core/configmaps apps/deployments]''\<rparr>]]"
    unfolding s h
    by (simp add: deferredUpdateStatus_Some formatStrings_def initialProgressingCondition_def)
  have n: "\<not> sorted [''core/configmaps'', ''apps/deployments'']"
    by simp
  from drv h n c show ?thesis by simp
qed

text \<open>
  C9, amended. In a tick that finds resources still migrating, the Progressing condition is
  written with status True and a message that lists those resources in ascending order of
  their \<open>String()\<close> form (\<open>resource.group\<close>, or the bare resource for the empty group),
  each rendered as \<open>group/resource\<close> with the empty group as \<open>core\<close>. When the
  \<open>String()\<close> forms of the resources of the current state are pairwise distinct, that list is
  the only one in this order with the same set of resources, so the message is determined
  by the set of migrating resources.
\<close>

theorem progressing_message_order:
  assumes ready: "shouldRunEncryptionController env (ext w) = (True, None)"
    and state: "GetEncryptionConfigAndState env (ext w) (EncryptedGRs env (ext w))
                  = (Some cfg, desired, [], None)"
    and secrets: "ListKeySecrets env (ext w) = (encryptionSecrets, None)"
    and result: "migrateKeysIfNeededAndRevisionStable env (EncryptedGRs env (ext w)) w
                   = ((migratingResources, err), w1)"
    and some: "length migratingResources > 0"
  shows "sorted (map GroupResource_String migratingResources)
     \<and> grsToHumanReadable migratingResources
         = map (\<lambda>gr. (if Group gr = [] then ''core'' else Group gr) @ ''/'' @ Resource gr)
             migratingResources
     \<and> (\<exists>degraded. calls (snd (sync env w))
           = calls w1 @ [CallUpdateStatus
               [degraded,
                \<lparr>Type = ''EncryptionMigrationControllerProgressing'', Status = ConditionTrue,
                 Reason = ''Migrating'',
                 Message = ''migrating resources to a new write key: ''
                   @ formatStrings (grsToHumanReadable migratingResources)\<rparr>]])
     \<and> (distinct (map GroupResource_String
                     (map fst (ToEncryptionState env cfg encryptionSecrets))) \<longrightarrow>
         (\<forall>other. sorted (map GroupResource_String other)
                  \<and> distinct (map GroupResource_String other)
                  \<and> set other = set migratingResources \<longrightarrow>
                  other = migratingResources))"
proof -
  let ?cs = "ToEncryptionState env cfg encryptionSecrets"
  from migrating_cases [of env "EncryptedGRs env (ext w)" w] result some state secrets
  have mig: "migratingResources
               = fst (snd (migrateGRs env ?cs (sortGRs (map fst ?cs)) ([], [], w)))"
    by auto
  have srt: "sorted (map GroupResource_String migratingResources)"
    unfolding mig
    by (rule migrateGRs_invariant [where Q = "\<lambda>l. sorted (map GroupResource_String l)"])
       (auto simp add: sortGRs_def sorted_append)
  have dst: "distinct (map GroupResource_String migratingResources)"
    if d: "distinct (map GroupResource_String (map fst ?cs))"
  proof -
    have "distinct (map GroupResource_String (sortGRs (map fst ?cs)))"
      unfolding sortGRs_def using d by (rule distinct_map_sort_key)
    then have "distinct (map GroupResource_String ([] @ sortGRs (map fst ?cs)))"
      by simp
    from migrateGRs_invariant
      [where Q = "\<lambda>l. distinct (map GroupResource_String l)", OF distinct_smaller this]
    show ?thesis unfolding mig .
  qed
  have msg: "\<exists>degraded. calls (snd (sync env w))
           = calls w1 @ [CallUpdateStatus
               [degraded,
                \<lparr>Type = ''EncryptionMigrationControllerProgressing'', Status = ConditionTrue,
                 Reason = ''Migrating'',
                 Message = ''migrating resources to a new write key: ''
                   @ formatStrings (grsToHumanReadable migratingResources)\<rparr>]]"
    using sync_ready [OF ready result] some
    by (simp add: deferredUpdateStatus_Some initialProgressingCondition_def)
  have unique: "distinct (map GroupResource_String (map fst ?cs)) \<longrightarrow>
         (\<forall>other. sorted (map GroupResource_String other)
                  \<and> distinct (map GroupResource_String other)
                  \<and> set other = set migratingResources \<longrightarrow>
                  other = migratingResources)"
    using sorted_unique_by_key [where f = GroupResource_String] srt dst by blast
  from srt msg unique show ?thesis
    by (simp add: grsToHumanReadable_map)
qed


theorem progressing_message_order_witness:
  "shouldRunEncryptionController scenario (ext (tickStart 0)) = (True, None)
   \<and> GetEncryptionConfigAndState scenario (ext (tickStart 0))
        (EncryptedGRs scenario (ext (tickStart 0)))
       = (Some \<lparr>Resources = 1\<rparr>, scenarioState, [], None)
   \<and> ListKeySecrets scenario (ext (tickStart 0)) = ([], None)
   \<and> fst (migrateKeysIfNeededAndRevisionStable scenario
            (EncryptedGRs scenario (ext (tickStart 0))) (tickStart 0))
       = ([configmapsGR, deploymentsGR], None)
   \<and> length [configmapsGR, deploymentsGR] > 0
   \<and> distinct (map GroupResource_String (map fst scenarioState))
   \<and> map GroupResource_String [configmapsGR, deploymentsGR] = [''configmaps'', ''deployments.apps'']
   \<and> sorted (map GroupResource_String [configmapsGR, deploymentsGR])
   \<and> grsToHumanReadable [configmapsGR, deploymentsGR]
       = map (\<lambda>gr. (if Group gr = [] then ''core'' else Group gr) @ ''/'' @ Resource gr)
           [configmapsGR, deploymentsGR]"
proof -
  let ?w1 = "\<lparr>ext = 0, calls = [CallEnsureMigration configmapsGR ''encryption-key-1'',
          CallEnsureMigration deploymentsGR ''encryption-key-1'']\<rparr> :: Time world"
  have h1: "shouldRunEncryptionController scenario (ext (tickStart 0)) = (True, None)"
    by (simp add: scenario_fields)
  have h2: "GetEncryptionConfigAndState scenario (ext (tickStart 0))
        (EncryptedGRs scenario (ext (tickStart 0)))
       = (Some \<lparr>Resources = 1\<rparr>, scenarioState, [], None)"
    by (simp add: scenario_fields)
  have h3: "ListKeySecrets scenario (ext (tickStart 0)) = ([], None)"
    by (simp add: scenario_fields)
  have h4: "migrateKeysIfNeededAndRevisionStable scenario
              (EncryptedGRs scenario (ext (tickStart 0))) (tickStart 0)
            = (([configmapsGR, deploymentsGR], None), ?w1)"
    using scenario_driver by (simp add: scenario_fields)
  have h5: "length [configmapsGR, deploymentsGR] > 0" by simp
  have h6: "distinct (map GroupResource_String (map fst scenarioState))"
    by (simp add: scenarioState_def GroupResource_String_def deploymentsGR_def configmapsGR_def)
  have h7: "map GroupResource_String [configmapsGR, deploymentsGR]
              = [''configmaps'', ''deployments.apps'']"
    by (simp add: GroupResource_String_def deploymentsGR_def configmapsGR_def)
  from progressing_message_order [OF h1 h2 h3 h4 h5]
  have "sorted (map GroupResource_String [configmapsGR, deploymentsGR])
     \<and> grsToHumanReadable [configmapsGR, deploymentsGR]
       = map (\<lambda>gr. (if Group gr = [] then ''core'' else Group gr) @ ''/'' @ Resource gr)
           [configmapsGR, deploymentsGR]"
    by blast
  with h1 h2 h3 h4 h5 h6 h7 show ?thesis by simp
qed


section \<open>Skipped resources in a tick\<close>







lemma sync_ready_conditions:
  assumes "shouldRunEncryptionController env (ext w) = (True, None)"
    and "migrateKeysIfNeededAndRevisionStable env (EncryptedGRs env (ext w)) w
           = ((mig, err), w1)"
  shows "sync env w =
     ((case fst (UpdateStatus env (ext w1) [degradedFor env err, progressingFor mig]) of
         None \<Rightarrow> err | Some u \<Rightarrow> Some u),
      \<lparr>ext = snd (UpdateStatus env (ext w1) [degradedFor env err, progressingFor mig]),
       calls = calls w1 @ [CallUpdateStatus [degradedFor env err, progressingFor mig]]\<rparr>)"
  using sync_ready [OF assms]
  by (simp add: deferredUpdateStatus_Some degradedFor_def progressingFor_def)

lemma migration_phase:
  assumes "GetEncryptionConfigAndState env (ext w) encryptedGRs = (Some cfg, desired, [], None)"
    and "ListKeySecrets env (ext w) = (encryptionSecrets, None)"
    and "Resources cfg = Resources (FromEncryptionState env desired)"
    and "ToEncryptionState env cfg encryptionSecrets = currentState"
  shows "migrateKeysIfNeededAndRevisionStable env encryptedGRs w
           = (case migrateGRs env currentState (sortGRs (map fst currentState)) ([], [], w) of
                (errs, mig, w1) \<Rightarrow> ((mig, NewAggregate errs), w1))"
  using assms by (simp add: migrateKeysIfNeededAndRevisionStable_def Let_def)






section \<open>Errors of PruneMigration in a tick\<close>

lemma migrateGRs_append:
  "migrateGRs env currentState (xs @ ys) st
     = migrateGRs env currentState ys (migrateGRs env currentState xs st)"
  by (induction xs arbitrary: st) simp_all

lemma errs_migrateGR:
  "\<exists>added. fst (migrateGR env currentState g (errs, migratingResources, w)) = errs @ added"
  by (auto simp add: migrateGR_def split: option.splits prod.splits sum.splits)

lemma errs_migrateGRs:
  "\<exists>added. fst (migrateGRs env currentState grs (errs, migratingResources, w)) = errs @ added"
proof (induction grs arbitrary: errs migratingResources w)
  case Nil
  show ?case by simp
next
  case (Cons g grs)
  obtain errs1 mig1 w1 where
    step: "migrateGR env currentState g (errs, migratingResources, w) = (errs1, mig1, w1)"
    by (cases "migrateGR env currentState g (errs, migratingResources, w)") auto
  from errs_migrateGR [of env currentState g errs migratingResources w] step
  obtain a1 where a1: "errs1 = errs @ a1" by auto
  from Cons.IH [of errs1 mig1 w1]
  obtain a2 where "fst (migrateGRs env currentState grs (errs1, mig1, w1)) = errs1 @ a2"
    by auto
  with step a1 show ?case by simp
qed

text \<open>
  C6, amended. At the call site that stops running migrations when the configuration is
  not stable, an error of \<open>PruneMigration\<close> is only logged: a warning follows the failed
  call, the driver returns \<open>nil, nil\<close> whatever the prunes return, and \<open>sync\<close> writes both
  conditions with status False and returns nil unless that status update fails, whose
  error it then returns. At the call site of the retry after a failed migration, an error
  of \<open>PruneMigration\<close> is appended to the errors of the loop: it is part of the aggregate the
  driver returns, \<open>sync\<close> writes the Degraded condition with status True, and \<open>sync\<close> returns
  that aggregate unless the status update fails, whose error it then returns.
\<close>

theorem prune_error_handling:
  "(shouldRunEncryptionController env (ext w) = (True, None)
      \<and> GetEncryptionConfigAndState env (ext w) (EncryptedGRs env (ext w))
           = (Some cfg, desired, [], None)
      \<and> ListKeySecrets env (ext w) = (encryptionSecrets, None)
      \<and> Resources cfg \<noteq> Resources (FromEncryptionState env desired) \<longrightarrow>
      (\<exists>w1. migrateKeysIfNeededAndRevisionStable env (EncryptedGRs env (ext w)) w
              = (([], None), w1)
         \<and> sync env w
             = (fst (UpdateStatus env (ext w1)
                      [initialDegradedCondition, initialProgressingCondition]),
                \<lparr>ext = snd (UpdateStatus env (ext w1)
                         [initialDegradedCondition, initialProgressingCondition]),
                 calls = calls w1
                   @ [CallUpdateStatus [initialDegradedCondition, initialProgressingCondition]]\<rparr>)))
   \<and> (\<forall>e x2. PruneMigration env (ext w) gr = (Some e, x2) \<longrightarrow>
        stopRunningMigrations env [gr] w
          = \<lparr>ext = x2,
             calls = calls w @ [CallPruneMigration gr,
               LogWarning (''failed to interrupt migration for resource ''
                           @ GroupResource_String gr)]\<rparr>)
   \<and> (\<forall>grActualKeys r lastAt x1 e x2 earlier later errs1 mig1 w1.
        shouldRunEncryptionController env (ext w) = (True, None)
        \<and> GetEncryptionConfigAndState env (ext w) (EncryptedGRs env (ext w))
            = (Some cfg, desired, [], None)
        \<and> ListKeySecrets env (ext w) = (encryptionSecrets, None)
        \<and> Resources cfg = Resources (FromEncryptionState env desired)
        \<and> ToEncryptionState env cfg encryptionSecrets = currentState
        \<and> sortGRs (map fst currentState) = earlier @ gr # later
        \<and> migrateGRs env currentState earlier ([], [], w) = (errs1, mig1, w1)
        \<and> map_of currentState gr = Some grActualKeys
        \<and> HasWriteKey env grActualKeys
        \<and> \<not> MigratedFor env [gr] (WriteKey grActualKeys)
        \<and> EnsureMigration env (ext w1) gr (KeyName env (WriteKey grActualKeys))
            = ((True, Some r, lastAt, None), x1)
        \<and> Now env x1 - lastAt > migrationRetryDuration
        \<and> PruneMigration env x1 gr = (Some e, x2) \<longrightarrow>
        (\<exists>es mig w2.
           migrateKeysIfNeededAndRevisionStable env (EncryptedGRs env (ext w)) w
             = ((mig, Some (Aggregate es)), w2)
           \<and> e \<in> set es
           \<and> Status (degradedFor env (Some (Aggregate es))) = ConditionTrue
           \<and> sync env w
               = ((case fst (UpdateStatus env (ext w2)
                              [degradedFor env (Some (Aggregate es)), progressingFor mig]) of
                     None \<Rightarrow> Some (Aggregate es) | Some u \<Rightarrow> Some u),
                  \<lparr>ext = snd (UpdateStatus env (ext w2)
                           [degradedFor env (Some (Aggregate es)), progressingFor mig]),
                   calls = calls w2
                     @ [CallUpdateStatus
                          [degradedFor env (Some (Aggregate es)), progressingFor mig]]\<rparr>)))
   \<and> (\<forall>grActualKeys r lastAt x1 e x2.
        map_of currentState gr = Some grActualKeys
        \<and> HasWriteKey env grActualKeys
        \<and> \<not> MigratedFor env [gr] (WriteKey grActualKeys)
        \<and> EnsureMigration env (ext w) gr (KeyName env (WriteKey grActualKeys))
            = ((True, Some r, lastAt, None), x1)
        \<and> Now env x1 - lastAt > migrationRetryDuration
        \<and> PruneMigration env x1 gr = (Some e, x2) \<longrightarrow>
        fst (migrateGR env currentState gr (errs, migratingResources, w)) = errs @ [Some e])
   \<and> Status initialDegradedCondition = ConditionFalse
   \<and> Status initialProgressingCondition = ConditionFalse"
proof (intro conjI allI impI)
  show "Status initialDegradedCondition = ConditionFalse"
    by (simp add: initialDegradedCondition_def)
  show "Status initialProgressingCondition = ConditionFalse"
    by (simp add: initialProgressingCondition_def)
next
  fix grActualKeys r lastAt x1 e x2
  assume "map_of currentState gr = Some grActualKeys
        \<and> HasWriteKey env grActualKeys
        \<and> \<not> MigratedFor env [gr] (WriteKey grActualKeys)
        \<and> EnsureMigration env (ext w) gr (KeyName env (WriteKey grActualKeys))
            = ((True, Some r, lastAt, None), x1)
        \<and> Now env x1 - lastAt > migrationRetryDuration
        \<and> PruneMigration env x1 gr = (Some e, x2)"
  then show "fst (migrateGR env currentState gr (errs, migratingResources, w))
               = errs @ [Some e]"
    by (auto simp add: migrateGR_def ensureMigrationWithRetry_def callEnsureMigration_def
        callPruneMigration_def)
next
  assume a: "shouldRunEncryptionController env (ext w) = (True, None)
      \<and> GetEncryptionConfigAndState env (ext w) (EncryptedGRs env (ext w))
           = (Some cfg, desired, [], None)
      \<and> ListKeySecrets env (ext w) = (encryptionSecrets, None)
      \<and> Resources cfg \<noteq> Resources (FromEncryptionState env desired)"
  then have ready: "shouldRunEncryptionController env (ext w) = (True, None)" by simp
  let ?w1 = "requeue env (stopRunningMigrations env
               (map fst (ToEncryptionState env cfg encryptionSecrets)) w)"
  from a have drv: "migrateKeysIfNeededAndRevisionStable env (EncryptedGRs env (ext w)) w
               = (([], None), ?w1)"
    by (auto simp add: migrateKeysIfNeededAndRevisionStable_def Let_def)
  have "sync env w
             = (fst (UpdateStatus env (ext ?w1)
                      [initialDegradedCondition, initialProgressingCondition]),
                \<lparr>ext = snd (UpdateStatus env (ext ?w1)
                         [initialDegradedCondition, initialProgressingCondition]),
                 calls = calls ?w1
                   @ [CallUpdateStatus [initialDegradedCondition, initialProgressingCondition]]\<rparr>)"
    by (simp add: sync_ready_conditions [OF ready drv] degradedFor_def progressingFor_def
        split: option.splits)
  with drv show "\<exists>w1. migrateKeysIfNeededAndRevisionStable env (EncryptedGRs env (ext w)) w
              = (([], None), w1)
         \<and> sync env w
             = (fst (UpdateStatus env (ext w1)
                      [initialDegradedCondition, initialProgressingCondition]),
                \<lparr>ext = snd (UpdateStatus env (ext w1)
                         [initialDegradedCondition, initialProgressingCondition]),
                 calls = calls w1
                   @ [CallUpdateStatus [initialDegradedCondition, initialProgressingCondition]]\<rparr>)"
    by blast
next
  fix e x2
  assume "PruneMigration env (ext w) gr = (Some e, x2)"
  then show "stopRunningMigrations env [gr] w
          = \<lparr>ext = x2,
             calls = calls w @ [CallPruneMigration gr,
               LogWarning (''failed to interrupt migration for resource ''
                           @ GroupResource_String gr)]\<rparr>"
    by (simp add: callPruneMigration_def logCall_def)
next
  fix grActualKeys r lastAt x1 e x2 earlier later errs1 mig1 w1
  assume a: "shouldRunEncryptionController env (ext w) = (True, None)
        \<and> GetEncryptionConfigAndState env (ext w) (EncryptedGRs env (ext w))
            = (Some cfg, desired, [], None)
        \<and> ListKeySecrets env (ext w) = (encryptionSecrets, None)
        \<and> Resources cfg = Resources (FromEncryptionState env desired)
        \<and> ToEncryptionState env cfg encryptionSecrets = currentState
        \<and> sortGRs (map fst currentState) = earlier @ gr # later
        \<and> migrateGRs env currentState earlier ([], [], w) = (errs1, mig1, w1)
        \<and> map_of currentState gr = Some grActualKeys
        \<and> HasWriteKey env grActualKeys
        \<and> \<not> MigratedFor env [gr] (WriteKey grActualKeys)
        \<and> EnsureMigration env (ext w1) gr (KeyName env (WriteKey grActualKeys))
            = ((True, Some r, lastAt, None), x1)
        \<and> Now env x1 - lastAt > migrationRetryDuration
        \<and> PruneMigration env x1 gr = (Some e, x2)"
  then have ready: "shouldRunEncryptionController env (ext w) = (True, None)"
    and a2: "GetEncryptionConfigAndState env (ext w) (EncryptedGRs env (ext w))
            = (Some cfg, desired, [], None)"
    and a3: "ListKeySecrets env (ext w) = (encryptionSecrets, None)"
    and a4: "Resources cfg = Resources (FromEncryptionState env desired)"
    and a5: "ToEncryptionState env cfg encryptionSecrets = currentState"
    and order: "sortGRs (map fst currentState) = earlier @ gr # later"
    and before: "migrateGRs env currentState earlier ([], [], w) = (errs1, mig1, w1)"
    and site: "map_of currentState gr = Some grActualKeys"
      "HasWriteKey env grActualKeys"
      "\<not> MigratedFor env [gr] (WriteKey grActualKeys)"
      "EnsureMigration env (ext w1) gr (KeyName env (WriteKey grActualKeys))
            = ((True, Some r, lastAt, None), x1)"
      "Now env x1 - lastAt > migrationRetryDuration"
      "PruneMigration env x1 gr = (Some e, x2)"
    by blast+
  have body: "migrateGR env currentState gr (errs1, mig1, w1)
                = (errs1 @ [Some e], mig1,
                   \<lparr>ext = x2,
                    calls = calls w1
                      @ [CallEnsureMigration gr (KeyName env (WriteKey grActualKeys)),
                         CallPruneMigration gr]\<rparr>)"
    using site
    by (simp add: migrateGR_def ensureMigrationWithRetry_def callEnsureMigration_def
        callPruneMigration_def)
  let ?st = "(errs1 @ [Some e], mig1,
                   \<lparr>ext = x2,
                    calls = calls w1
                      @ [CallEnsureMigration gr (KeyName env (WriteKey grActualKeys)),
                         CallPruneMigration gr]\<rparr>)"
  obtain errs2 mig2 w2 where
    rest: "migrateGRs env currentState later ?st = (errs2, mig2, w2)"
    by (cases "migrateGRs env currentState later ?st") auto
  from errs_migrateGRs [of env currentState later "errs1 @ [Some e]" mig1
      "\<lparr>ext = x2,
        calls = calls w1
          @ [CallEnsureMigration gr (KeyName env (WriteKey grActualKeys)),
             CallPruneMigration gr]\<rparr>"] rest
  obtain added where added: "errs2 = errs1 @ Some e # added"
    by auto
  have loop: "migrateGRs env currentState (sortGRs (map fst currentState)) ([], [], w)
                = (errs2, mig2, w2)"
    unfolding order using before body rest by (simp add: migrateGRs_append)
  from NewAggregate_member [of errs1 e added] added
  obtain es where es: "NewAggregate errs2 = Some (Aggregate es)" "e \<in> set es"
    by auto
  have drv: "migrateKeysIfNeededAndRevisionStable env (EncryptedGRs env (ext w)) w
               = ((mig2, Some (Aggregate es)), w2)"
    using migration_phase [OF a2 a3 a4 a5] loop es by simp
  have st: "Status (degradedFor env (Some (Aggregate es))) = ConditionTrue"
    by (simp add: degradedFor_def)
  from drv es(2) st sync_ready_conditions [OF ready drv]
  show "\<exists>es mig w2.
           migrateKeysIfNeededAndRevisionStable env (EncryptedGRs env (ext w)) w
             = ((mig, Some (Aggregate es)), w2)
           \<and> e \<in> set es
           \<and> Status (degradedFor env (Some (Aggregate es))) = ConditionTrue
           \<and> sync env w
               = ((case fst (UpdateStatus env (ext w2)
                              [degradedFor env (Some (Aggregate es)), progressingFor mig]) of
                     None \<Rightarrow> Some (Aggregate es) | Some u \<Rightarrow> Some u),
                  \<lparr>ext = snd (UpdateStatus env (ext w2)
                           [degradedFor env (Some (Aggregate es)), progressingFor mig]),
                   calls = calls w2
                     @ [CallUpdateStatus
                          [degradedFor env (Some (Aggregate es)), progressingFor mig]]\<rparr>)"
    by blast
qed


theorem prune_error_handling_witness:
  "shouldRunEncryptionController divergedScenario (ext (tickStart 0)) = (True, None)
   \<and> GetEncryptionConfigAndState divergedScenario (ext (tickStart 0))
        (EncryptedGRs divergedScenario (ext (tickStart 0)))
       = (Some \<lparr>Resources = 1\<rparr>, scenarioState, [], None)
   \<and> ListKeySecrets divergedScenario (ext (tickStart 0)) = ([], None)
   \<and> Resources \<lparr>Resources = 1::nat\<rparr>
       \<noteq> Resources (FromEncryptionState divergedScenario scenarioState)
   \<and> PruneMigration divergedScenario (ext (tickStart 0)) deploymentsGR
       = (Some (External ''prune failed''), 0)
   \<and> fst (migrateKeysIfNeededAndRevisionStable divergedScenario
            (EncryptedGRs divergedScenario (ext (tickStart 0))) (tickStart 0)) = ([], None)
   \<and> fst (sync divergedScenario (tickStart 0)) = None
   \<and> stopRunningMigrations divergedScenario [deploymentsGR] (tickStart 0)
       = \<lparr>ext = 0, calls = [CallPruneMigration deploymentsGR,
            LogWarning ''failed to interrupt migration for resource deployments.apps'']\<rparr>
   \<and> shouldRunEncryptionController pruneFailsScenario (ext (tickStart (10 * Minute)))
       = (True, None)
   \<and> sortGRs (map fst scenarioState) = [] @ configmapsGR # [deploymentsGR]
   \<and> map_of scenarioState configmapsGR
       = Some \<lparr>WriteKey = ''encryption-key-1'', ReadKeys = []\<rparr>
   \<and> HasWriteKey pruneFailsScenario \<lparr>WriteKey = ''encryption-key-1'', ReadKeys = []\<rparr>
   \<and> \<not> MigratedFor pruneFailsScenario [configmapsGR] ''encryption-key-1''
   \<and> EnsureMigration pruneFailsScenario (ext (tickStart (10 * Minute))) configmapsGR
        ''encryption-key-1''
       = ((True, Some (External ''migration failed''), 0, None), 10 * Minute)
   \<and> Now pruneFailsScenario (10 * Minute) - 0 > migrationRetryDuration
   \<and> PruneMigration pruneFailsScenario (10 * Minute) configmapsGR
       = (Some (External ''prune failed''), 10 * Minute)
   \<and> (\<exists>es. fst (sync pruneFailsScenario (tickStart (10 * Minute))) = Some (Aggregate es)
          \<and> External ''prune failed'' \<in> set es
          \<and> Status (degradedFor pruneFailsScenario (Some (Aggregate es))) = ConditionTrue)"
proof -
  let ?k = "\<lparr>WriteKey = ''encryption-key-1'', ReadKeys = []\<rparr> :: string GroupResourceState"
  let ?w = "tickStart (10 * Minute)"
  have a1: "shouldRunEncryptionController divergedScenario (ext (tickStart 0)) = (True, None)"
    by (simp add: divergedScenario_fields)
  have a2: "GetEncryptionConfigAndState divergedScenario (ext (tickStart 0))
              (EncryptedGRs divergedScenario (ext (tickStart 0)))
            = (Some \<lparr>Resources = 1\<rparr>, scenarioState, [], None)"
    by (simp add: divergedScenario_fields)
  have a3: "ListKeySecrets divergedScenario (ext (tickStart 0)) = ([], None)"
    by (simp add: divergedScenario_fields)
  have a4: "Resources \<lparr>Resources = 1::nat\<rparr>
              \<noteq> Resources (FromEncryptionState divergedScenario scenarioState)"
    by (simp add: divergedScenario_fields)
  have a5: "PruneMigration divergedScenario (ext (tickStart 0)) deploymentsGR
              = (Some (External ''prune failed''), 0)"
    by (simp add: divergedScenario_fields tickStart_def)
  note a = prune_error_handling [where env = divergedScenario and w = "tickStart 0"
      and cfg = "\<lparr>Resources = 1\<rparr>" and desired = scenarioState
      and encryptionSecrets = "[]" and gr = deploymentsGR]
  from a [THEN conjunct1] a1 a2 a3 a4
  obtain w1 where a6: "migrateKeysIfNeededAndRevisionStable divergedScenario
              (EncryptedGRs divergedScenario (ext (tickStart 0))) (tickStart 0)
              = (([], None), w1)"
    and a7: "sync divergedScenario (tickStart 0)
             = (fst (UpdateStatus divergedScenario (ext w1)
                      [initialDegradedCondition, initialProgressingCondition]),
                \<lparr>ext = snd (UpdateStatus divergedScenario (ext w1)
                         [initialDegradedCondition, initialProgressingCondition]),
                 calls = calls w1
                   @ [CallUpdateStatus [initialDegradedCondition, initialProgressingCondition]]\<rparr>)"
    by blast
  from a6 have a8: "fst (migrateKeysIfNeededAndRevisionStable divergedScenario
            (EncryptedGRs divergedScenario (ext (tickStart 0))) (tickStart 0)) = ([], None)"
    by simp
  from a7 have a9: "fst (sync divergedScenario (tickStart 0)) = None"
    by (simp add: divergedScenario_fields)
  from a [THEN conjunct2, THEN conjunct1] a5
  have "stopRunningMigrations divergedScenario [deploymentsGR] (tickStart 0)
       = \<lparr>ext = 0, calls = calls (tickStart 0) @ [CallPruneMigration deploymentsGR,
            LogWarning (''failed to interrupt migration for resource ''
                        @ GroupResource_String deploymentsGR)]\<rparr>"
    by blast
  then have a10: "stopRunningMigrations divergedScenario [deploymentsGR] (tickStart 0)
       = \<lparr>ext = 0, calls = [CallPruneMigration deploymentsGR,
            LogWarning ''failed to interrupt migration for resource deployments.apps'']\<rparr>"
    by (simp add: tickStart_def GroupResource_String_def deploymentsGR_def)
  have b1: "shouldRunEncryptionController pruneFailsScenario (ext ?w) = (True, None)"
    by (simp add: pruneFailsScenario_fields)
  have b2: "GetEncryptionConfigAndState pruneFailsScenario (ext ?w)
              (EncryptedGRs pruneFailsScenario (ext ?w))
            = (Some \<lparr>Resources = 1\<rparr>, scenarioState, [], None)"
    by (simp add: pruneFailsScenario_fields)
  have b3: "ListKeySecrets pruneFailsScenario (ext ?w) = ([], None)"
    by (simp add: pruneFailsScenario_fields)
  have b4: "Resources \<lparr>Resources = 1::nat\<rparr>
              = Resources (FromEncryptionState pruneFailsScenario scenarioState)"
    by (simp add: pruneFailsScenario_fields)
  have b5: "ToEncryptionState pruneFailsScenario \<lparr>Resources = 1\<rparr> [] = scenarioState"
    by (simp add: pruneFailsScenario_fields)
  have b6: "sortGRs (map fst scenarioState) = [] @ configmapsGR # [deploymentsGR]"
    by (simp add: scenario_keys)
  have b7: "migrateGRs pruneFailsScenario scenarioState [] ([], [], ?w) = ([], [], ?w)"
    by simp
  have b8: "map_of scenarioState configmapsGR = Some ?k" by (simp add: scenario_keys)
  have b9: "HasWriteKey pruneFailsScenario ?k" by (simp add: pruneFailsScenario_fields)
  have b10: "\<not> MigratedFor pruneFailsScenario [configmapsGR] (WriteKey ?k)"
    by (simp add: pruneFailsScenario_fields)
  have b11: "EnsureMigration pruneFailsScenario (ext ?w) configmapsGR
               (KeyName pruneFailsScenario (WriteKey ?k))
             = ((True, Some (External ''migration failed''), 0, None), 10 * Minute)"
    by (simp add: pruneFailsScenario_fields tickStart_def)
  have b12: "Now pruneFailsScenario (10 * Minute) - 0 > migrationRetryDuration"
    by (simp add: pruneFailsScenario_fields Minute_def migrationRetryDuration_def)
  have b13: "PruneMigration pruneFailsScenario (10 * Minute) configmapsGR
               = (Some (External ''prune failed''), 10 * Minute)"
    by (simp add: pruneFailsScenario_fields)
  note b = prune_error_handling [where env = pruneFailsScenario and w = ?w
      and cfg = "\<lparr>Resources = 1\<rparr>" and desired = scenarioState
      and encryptionSecrets = "[]" and gr = configmapsGR and currentState = scenarioState,
      THEN conjunct2, THEN conjunct2, THEN conjunct1, rule_format,
      where earlier = "[]" and later = "[deploymentsGR]" and ?errs1.0 = "[]" and ?mig1.0 = "[]"
        and ?w1.0 = ?w and grActualKeys = ?k and r = "External ''migration failed''"
        and lastAt = 0 and ?x1.0 = "10 * Minute" and e = "External ''prune failed''"
        and ?x2.0 = "10 * Minute"]
  have ex: "\<exists>es mig w2.
        migrateKeysIfNeededAndRevisionStable pruneFailsScenario
          (EncryptedGRs pruneFailsScenario (ext ?w)) ?w
          = ((mig, Some (Aggregate es)), w2)
        \<and> External ''prune failed'' \<in> set es
        \<and> Status (degradedFor pruneFailsScenario (Some (Aggregate es))) = ConditionTrue
        \<and> sync pruneFailsScenario ?w
               = ((case fst (UpdateStatus pruneFailsScenario (ext w2)
                              [degradedFor pruneFailsScenario (Some (Aggregate es)),
                               progressingFor mig]) of
                     None \<Rightarrow> Some (Aggregate es) | Some u \<Rightarrow> Some u),
                  \<lparr>ext = snd (UpdateStatus pruneFailsScenario (ext w2)
                           [degradedFor pruneFailsScenario (Some (Aggregate es)),
                            progressingFor mig]),
                   calls = calls w2
                     @ [CallUpdateStatus
                          [degradedFor pruneFailsScenario (Some (Aggregate es)),
                           progressingFor mig]]\<rparr>)"
    by (rule b) (intro conjI b1 b2 b3 b4 b5 b6 b7 b8 b9 b10 b11 b12 b13)
  from ex have c: "\<exists>es. fst (sync pruneFailsScenario ?w) = Some (Aggregate es)
          \<and> External ''prune failed'' \<in> set es
          \<and> Status (degradedFor pruneFailsScenario (Some (Aggregate es))) = ConditionTrue"
  proof (elim exE conjE)
    fix es mig w2
    assume c1: "External ''prune failed'' \<in> set es"
      and c2: "Status (degradedFor pruneFailsScenario (Some (Aggregate es))) = ConditionTrue"
      and c3: "sync pruneFailsScenario ?w
               = ((case fst (UpdateStatus pruneFailsScenario (ext w2)
                              [degradedFor pruneFailsScenario (Some (Aggregate es)),
                               progressingFor mig]) of
                     None \<Rightarrow> Some (Aggregate es) | Some u \<Rightarrow> Some u),
                  \<lparr>ext = snd (UpdateStatus pruneFailsScenario (ext w2)
                           [degradedFor pruneFailsScenario (Some (Aggregate es)),
                            progressingFor mig]),
                   calls = calls w2
                     @ [CallUpdateStatus
                          [degradedFor pruneFailsScenario (Some (Aggregate es)),
                           progressingFor mig]]\<rparr>)"
    from c3 have c4: "fst (sync pruneFailsScenario ?w) = Some (Aggregate es)"
      by (simp add: pruneFailsScenario_fields)
    from c4 c1 c2 show ?thesis
      by (intro exI [of _ es] conjI)
  qed
  have b9': "HasWriteKey pruneFailsScenario \<lparr>WriteKey = ''encryption-key-1'', ReadKeys = []\<rparr>"
    by (rule b9)
  have b10': "\<not> MigratedFor pruneFailsScenario [configmapsGR] ''encryption-key-1''"
    using b10 by simp
  have b11': "EnsureMigration pruneFailsScenario (ext ?w) configmapsGR ''encryption-key-1''
             = ((True, Some (External ''migration failed''), 0, None), 10 * Minute)"
    by (simp add: pruneFailsScenario_fields tickStart_def)
  from a1 a2 a3 a4 a5 a8 a9 a10 b1 b6 b8 b9' b10' b11' b12 b13 c
  show ?thesis by blast
qed

end
